theory Spec2Isabelle
  imports Main "HOL-Library.Word"
begin

chapter \<open>The model\<close>

section \<open>JavaScript strings and exceptions\<close>

text \<open>
  A JavaScript string is a sequence of UTF-16 code units: \<open>length\<close>, \<open>slice\<close>,
  \<open>startsWith\<close>, \<open>includes\<close> and regular expressions without the \<open>u\<close> flag all count
  and compare code units. The model therefore uses lists of 16-bit words; \<open>js\<close> embeds an
  ASCII literal of the source.
\<close>

type_synonym jsstring = "16 word list"

definition js :: "string \<Rightarrow> jsstring" where
  "js s = map of_char s"

fun startsWith :: "jsstring \<Rightarrow> jsstring \<Rightarrow> bool" where
  "startsWith s [] = True"
| "startsWith [] (p # ps) = False"
| "startsWith (c # cs) (p # ps) = (c = p \<and> startsWith cs ps)"

definition endsWith :: "jsstring \<Rightarrow> jsstring \<Rightarrow> bool" where
  "endsWith s p = startsWith (rev s) (rev p)"

text \<open>\<open>s.includes(p)\<close>; the name \<open>includes\<close> is reserved in Isabelle.\<close>

fun includes_str :: "jsstring \<Rightarrow> jsstring \<Rightarrow> bool" where
  "includes_str [] p = (p = [])"
| "includes_str (c # cs) p = (startsWith (c # cs) p \<or> includes_str cs p)"

text \<open>
  The white space of the regular-expression class \<open>s\<close> and of \<open>trim()\<close>: the WhiteSpace
  and LineTerminator code points of ECMAScript.
\<close>

definition is_space :: "16 word \<Rightarrow> bool" where
  "is_space c \<longleftrightarrow>
     (9 \<le> c \<and> c \<le> 13) \<or> c = 32 \<or> c = 0xA0 \<or> c = 0x1680 \<or>
     (0x2000 \<le> c \<and> c \<le> 0x200A) \<or> c = 0x2028 \<or> c = 0x2029 \<or> c = 0x202F \<or>
     c = 0x205F \<or> c = 0x3000 \<or> c = 0xFEFF"

definition trim :: "jsstring \<Rightarrow> jsstring" where
  "trim s = rev (dropWhile is_space (rev (dropWhile is_space s)))"

text \<open>
  \<open>toLowerCase()\<close> on the ASCII letters. The Unicode case table is not modelled: code
  units outside \<open>A\<close> to \<open>Z\<close> are left as they are.
\<close>

definition ascii_lower :: "16 word \<Rightarrow> 16 word" where
  "ascii_lower c = (if 65 \<le> c \<and> c \<le> 90 then c + 32 else c)"

definition ascii_upper :: "16 word \<Rightarrow> 16 word" where
  "ascii_upper c = (if 97 \<le> c \<and> c \<le> 122 then c - 32 else c)"

definition toLowerCase :: "jsstring \<Rightarrow> jsstring" where
  "toLowerCase s = map ascii_lower s"

definition newline :: "16 word" where
  "newline = 10"

text \<open>Decimal digits of a number, as \<open>String(n)\<close> and template literals print it.\<close>

definition digit :: "nat \<Rightarrow> 16 word" where
  "digit d = of_nat (48 + d)"

fun show_nat :: "nat \<Rightarrow> jsstring" where
  "show_nat n = (if n < 10 then [digit n] else show_nat (n div 10) @ [digit (n mod 10)])"

text \<open>
  A thrown value: an \<open>Error\<close> object with its \<open>name\<close> and \<open>message\<close>, or any other value,
  given by what \<open>String(value)\<close> yields.
\<close>

datatype exn = JsError jsstring jsstring | Thrown jsstring

definition Error :: "jsstring \<Rightarrow> exn" where
  "Error msg = JsError (js ''Error'') msg"

text \<open>\<open>error instanceof Error ? error.message : fallback\<close>.\<close>

definition message_or :: "jsstring \<Rightarrow> exn \<Rightarrow> jsstring" where
  "message_or fallback e = (case e of JsError _ msg \<Rightarrow> msg | Thrown _ \<Rightarrow> fallback)"

text \<open>\<open>error instanceof Error ? error.message : String(error)\<close>.\<close>

definition message_or_string :: "exn \<Rightarrow> jsstring" where
  "message_or_string e = (case e of JsError _ msg \<Rightarrow> msg | Thrown v \<Rightarrow> v)"

section \<open>Network audit log (src/lib/network-audit.ts)\<close>

text \<open>
  \<open>interface NetworkRequest\<close>. The optional fields \<open>reason?\<close> and \<open>method?\<close> are options
  (\<open>method\<close> is a reserved word of Isabelle: the field is \<open>http_method\<close>);
  \<open>timestamp\<close> is the value of \<open>Date.now()\<close>, which the model receives as an argument.
\<close>

record NetworkRequest =
  url :: jsstring
  timestamp :: nat
  blocked :: bool
  reason :: "jsstring option"
  http_method :: "jsstring option"

definition MAX_ENTRIES :: nat where
  "MAX_ENTRIES = 100"

text \<open>
  \<open>logRequest(url, allowed, reason?, method = 'GET')\<close>: \<open>push\<close> the entry, then \<open>shift\<close>
  once if the array has grown past \<open>MAX_ENTRIES\<close>. The state is the private array
  \<open>requests\<close>; a missing \<open>method\<close> argument takes the default.
\<close>

definition logRequest ::
  "nat \<Rightarrow> jsstring \<Rightarrow> bool \<Rightarrow> jsstring option \<Rightarrow> jsstring option
     \<Rightarrow> NetworkRequest list \<Rightarrow> NetworkRequest list" where
  "logRequest now u allowed rsn mth requests =
     (let pushed = requests @
            [\<lparr>url = u, timestamp = now, blocked = \<not> allowed, reason = rsn,
              http_method = Some (case mth of None \<Rightarrow> js ''GET'' | Some m \<Rightarrow> m)\<rparr>]
      in if length pushed > MAX_ENTRIES then tl pushed else pushed)"

definition getRequests :: "NetworkRequest list \<Rightarrow> NetworkRequest list" where
  "getRequests requests = requests"

definition getBlockedRequests :: "NetworkRequest list \<Rightarrow> NetworkRequest list" where
  "getBlockedRequests requests = filter blocked requests"

definition getAllowedRequests :: "NetworkRequest list \<Rightarrow> NetworkRequest list" where
  "getAllowedRequests requests = filter (\<lambda>r. \<not> blocked r) requests"

definition clear :: "NetworkRequest list \<Rightarrow> NetworkRequest list" where
  "clear requests = []"

text \<open>One call of \<open>logRequest\<close> with its arguments and the clock value it reads.\<close>

record log_call =
  call_now :: nat
  call_url :: jsstring
  call_allowed :: bool
  call_reason :: "jsstring option"
  call_method :: "jsstring option"

definition entry_of :: "log_call \<Rightarrow> NetworkRequest" where
  "entry_of c =
     \<lparr>url = call_url c, timestamp = call_now c, blocked = \<not> call_allowed c,
      reason = call_reason c,
      http_method = Some (case call_method c of None \<Rightarrow> js ''GET'' | Some m \<Rightarrow> m)\<rparr>"

definition log_one :: "NetworkRequest list \<Rightarrow> log_call \<Rightarrow> NetworkRequest list" where
  "log_one requests c =
     logRequest (call_now c) (call_url c) (call_allowed c) (call_reason c) (call_method c) requests"

text \<open>A sequence of calls on the singleton, starting from the array it is created with.\<close>

definition log_calls :: "log_call list \<Rightarrow> NetworkRequest list" where
  "log_calls cs = foldl log_one [] cs"

section \<open>Network gate (src/lib/security-init.ts, deployNetworkSecurity)\<close>

text \<open>
  The wrapper calls the platform's \<open>new URL(url, window.location.origin)\<close> and reads
  \<open>hostname\<close>. The constructor is not code of this repository: the wrapper takes it as the
  parameter \<open>parse\<close>, which yields the host name or \<open>None\<close> where the constructor throws.
\<close>

definition allowedDomains :: "jsstring list" where
  "allowedDomains =
     [js ''huggingface.co'', js ''cdn-lfs.huggingface.co'',
      js ''raw.githubusercontent.com'', js ''xethub.hf.co'']"

definition isAllowed :: "jsstring \<Rightarrow> bool" where
  "isAllowed h = list_ex (\<lambda>domain. includes_str h domain) allowedDomains"

text \<open>\<open>page\<close> is \<open>window.location.hostname\<close>.\<close>

definition isLocalRequest :: "jsstring \<Rightarrow> jsstring \<Rightarrow> bool" where
  "isLocalRequest page h =
     (includes_str h page \<or>
      h = js ''localhost'' \<or>
      h = js ''127.0.0.1'' \<or>
      endsWith h (js ''.onion'') \<or>
      startsWith h (js ''192.168.'') \<or>
      startsWith h (js ''10.'') \<or>
      startsWith h (js ''172.16.'') \<or>
      startsWith h (js ''172.17.'') \<or>
      startsWith h (js ''172.18.'') \<or>
      startsWith h (js ''172.19.'') \<or>
      startsWith h (js ''172.20.'') \<or>
      startsWith h (js ''172.21.'') \<or>
      startsWith h (js ''172.22.'') \<or>
      startsWith h (js ''172.23.'') \<or>
      startsWith h (js ''172.24.'') \<or>
      startsWith h (js ''172.25.'') \<or>
      startsWith h (js ''172.26.'') \<or>
      startsWith h (js ''172.27.'') \<or>
      startsWith h (js ''172.28.'') \<or>
      startsWith h (js ''172.29.'') \<or>
      startsWith h (js ''172.30.'') \<or>
      startsWith h (js ''172.31.''))"

text \<open>
  What the wrapped \<open>fetch\<close> does with a request: it either goes on to
  \<open>originalFetch(input, init)\<close> or throws an \<open>Error\<close> with the given message.
\<close>

datatype fetch_outcome = Proceeds | Throws jsstring

text \<open>\<open>init?.method || 'GET'\<close>: an absent or empty method is \<open>'GET'\<close>.\<close>

definition request_method :: "jsstring option \<Rightarrow> jsstring" where
  "request_method m = (case m of None \<Rightarrow> js ''GET'' | Some x \<Rightarrow> if x = [] then js ''GET'' else x)"

text \<open>
  The body of the \<open>try\<close> block: the \<open>Inl\<close> results are the exceptions raised inside it,
  the one of the URL constructor and the wrapper's own \<open>throw\<close>. Both calls of \<open>Date.now()\<close>
  of one request read the same clock value \<open>now\<close>.
\<close>

definition gate_try ::
  "(jsstring \<Rightarrow> jsstring option) \<Rightarrow> jsstring \<Rightarrow> nat \<Rightarrow> jsstring \<Rightarrow> jsstring
     \<Rightarrow> NetworkRequest list \<Rightarrow> (jsstring + unit) \<times> NetworkRequest list" where
  "gate_try parse page now u mth requests =
     (case parse u of
        None \<Rightarrow> (Inl (js ''Invalid URL''), requests)
      | Some h \<Rightarrow>
          if \<not> isAllowed h \<and> \<not> isLocalRequest page h
          then (Inl (js ''Network request blocked: domain not whitelisted''),
                logRequest now u False (Some (js ''Domain not in whitelist'')) (Some mth) requests)
          else (Inr (),
                logRequest now u True
                  (Some (if isLocalRequest page h then js ''Local request''
                         else js ''Whitelisted domain''))
                  (Some mth) requests))"

text \<open>
  The replacement of \<open>window.fetch\<close>. The \<open>catch\<close> clause has no binding: it runs for
  every exception of the \<open>try\<close> block, whatever it is.
\<close>

definition wrappedFetch ::
  "(jsstring \<Rightarrow> jsstring option) \<Rightarrow> jsstring \<Rightarrow> nat \<Rightarrow> jsstring \<Rightarrow> jsstring option
     \<Rightarrow> NetworkRequest list \<Rightarrow> fetch_outcome \<times> NetworkRequest list" where
  "wrappedFetch parse page now u init_method requests =
     (let mth = request_method init_method in
      case gate_try parse page now u mth requests of
        (Inr _, requests') \<Rightarrow> (Proceeds, requests')
      | (Inl _, requests') \<Rightarrow>
          if startsWith u (js ''/'') \<or> startsWith u (js ''./'')
          then (Proceeds,
                logRequest now u True (Some (js ''Local resource'')) (Some mth) requests')
          else (Throws (js ''Network request blocked''),
                logRequest now u False (Some (js ''Invalid or blocked URL'')) (Some mth)
                  requests'))"

text \<open>
  A reading of the URL constructor for the closed examples below. It covers three shapes
  of reference only: \<open>http://host...\<close> and \<open>https://host...\<close>, the scheme-relative
  \<open>//host...\<close>, and any other string read as a path on the page's own host. The host is
  the authority up to the first slash, backslash, \<open>?\<close> or \<open>#\<close>, without user information and port,
  and must consist of ASCII letters, digits, \<open>-\<close> and \<open>.\<close>; it is lower-cased.
\<close>

definition host_char :: "16 word \<Rightarrow> bool" where
  "host_char c \<longleftrightarrow>
     (97 \<le> c \<and> c \<le> 122) \<or> (65 \<le> c \<and> c \<le> 90) \<or> (48 \<le> c \<and> c \<le> 57) \<or> c = 45 \<or> c = 46"

definition host_of_authority :: "jsstring \<Rightarrow> jsstring option" where
  "host_of_authority s =
     (let auth = takeWhile (\<lambda>c. c \<noteq> 47 \<and> c \<noteq> 92 \<and> c \<noteq> 63 \<and> c \<noteq> 35) s;
          hostport = rev (takeWhile (\<lambda>c. c \<noteq> 64) (rev auth));
          host = takeWhile (\<lambda>c. c \<noteq> 58) hostport
      in if host = [] \<or> \<not> list_all host_char host then None
         else Some (map ascii_lower host))"

definition URL_hostname :: "jsstring \<Rightarrow> jsstring \<Rightarrow> jsstring option" where
  "URL_hostname page u =
     (if startsWith u (js ''https://'') then host_of_authority (drop 8 u)
      else if startsWith u (js ''http://'') then host_of_authority (drop 7 u)
      else if startsWith u (js ''//'') then host_of_authority (drop 2 u)
      else Some page)"

section \<open>Input sanitisation (src/lib/security.ts, sanitizeInput)\<close>

subsection \<open>The regular expressions of the source\<close>

text \<open>
  Every pattern of \<open>sanitizeInput\<close> is a sequence of single code units, of classes
  repeated greedily, and of word boundaries, all under the flags \<open>gi\<close>. \<open>Rep k lo hi\<close> is
  the class \<open>k\<close> repeated at least \<open>lo\<close> and at most \<open>hi\<close> times (\<open>None\<close>: unbounded).
  Under \<open>i\<close> without \<open>u\<close> an ASCII letter of a pattern matches its two cases and no
  code unit above 127.
\<close>

datatype cls = Lit "16 word" | Space | WordC | Dot | Hex

datatype atom = Ch cls | Rep cls nat "nat option" | WordBoundary

definition is_word :: "16 word \<Rightarrow> bool" where
  "is_word c \<longleftrightarrow>
     (97 \<le> c \<and> c \<le> 122) \<or> (65 \<le> c \<and> c \<le> 90) \<or> (48 \<le> c \<and> c \<le> 57) \<or> c = 95"

definition is_line_terminator :: "16 word \<Rightarrow> bool" where
  "is_line_terminator c \<longleftrightarrow> c = 10 \<or> c = 13 \<or> c = 0x2028 \<or> c = 0x2029"

definition is_hex :: "16 word \<Rightarrow> bool" where
  "is_hex c \<longleftrightarrow> (48 \<le> c \<and> c \<le> 57) \<or> (97 \<le> c \<and> c \<le> 102) \<or> (65 \<le> c \<and> c \<le> 70)"

fun in_cls :: "cls \<Rightarrow> 16 word \<Rightarrow> bool" where
  "in_cls (Lit a) c = (ascii_upper c = ascii_upper a)"
| "in_cls Space c = is_space c"
| "in_cls WordC c = is_word c"
| "in_cls Dot c = (\<not> is_line_terminator c)"
| "in_cls Hex c = is_hex c"

text \<open>How many leading code units of \<open>s\<close> lie in the class, at most \<open>hi\<close>.\<close>

fun count_leading :: "cls \<Rightarrow> nat option \<Rightarrow> jsstring \<Rightarrow> nat" where
  "count_leading k hi [] = 0"
| "count_leading k hi (c # cs) =
     (if hi = Some 0 \<or> \<not> in_cls k c then 0
      else Suc (count_leading k (map_option (\<lambda>h. h - 1) hi) cs))"

text \<open>The code unit before position \<open>n\<close> of \<open>s\<close>, where \<open>prev\<close> precedes \<open>s\<close>.\<close>

definition char_before :: "16 word option \<Rightarrow> jsstring \<Rightarrow> nat \<Rightarrow> 16 word option" where
  "char_before prev s n = (case rev (take n s) of [] \<Rightarrow> prev | c # _ \<Rightarrow> Some c)"

definition word_at :: "16 word option \<Rightarrow> bool" where
  "word_at c = (case c of None \<Rightarrow> False | Some x \<Rightarrow> is_word x)"

definition first_char :: "jsstring \<Rightarrow> 16 word option" where
  "first_char s = (case s of [] \<Rightarrow> None | c # _ \<Rightarrow> Some c)"

text \<open>
  The backtracking matcher: \<open>rx_match p prev s\<close> is the length of the match of \<open>p\<close> at the
  start of \<open>s\<close> that the engine finds first, if there is one. A repetition takes as many
  code units as it can and gives them back one at a time (\<open>rx_rep\<close>).
\<close>

function rx_match :: "atom list \<Rightarrow> 16 word option \<Rightarrow> jsstring \<Rightarrow> nat option"
  and rx_rep :: "nat \<Rightarrow> atom list \<Rightarrow> 16 word option \<Rightarrow> jsstring \<Rightarrow> nat \<Rightarrow> nat option" where
  "rx_match [] prev s = Some 0"
| "rx_match (Ch k # as) prev [] = None"
| "rx_match (Ch k # as) prev (c # cs) =
     (if in_cls k c then map_option Suc (rx_match as (Some c) cs) else None)"
| "rx_match (WordBoundary # as) prev s =
     (if word_at prev \<noteq> word_at (first_char s) then rx_match as prev s else None)"
| "rx_match (Rep k lo hi # as) prev s = rx_rep lo as prev s (count_leading k hi s)"
| "rx_rep lo as prev s n =
     (if n < lo then None
      else case rx_match as (char_before prev s n) (drop n s) of
             Some m \<Rightarrow> Some (n + m)
           | None \<Rightarrow> if n = 0 then None else rx_rep lo as prev s (n - 1))"
  by pat_completeness auto
termination
  by (relation "measures
        [\<lambda>x. case x of Inl (as, _, _) \<Rightarrow> 2 * length as
                      | Inr (_, as, _, _, _) \<Rightarrow> 2 * length as + 1,
         \<lambda>x. case x of Inl _ \<Rightarrow> 0 | Inr (_, _, _, _, n) \<Rightarrow> n]")
     auto

text \<open>
  \<open>s.replace(pattern, rep)\<close> for a pattern with the flag \<open>g\<close> and a replacement without
  \<open>$\<close>: the leftmost match is replaced and the search goes on behind it; after an empty
  match it goes on one code unit further.
\<close>

fun replace_all :: "atom list \<Rightarrow> jsstring \<Rightarrow> 16 word option \<Rightarrow> jsstring \<Rightarrow> jsstring" where
  "replace_all rx rep prev [] = (case rx_match rx prev [] of None \<Rightarrow> [] | Some _ \<Rightarrow> rep)"
| "replace_all rx rep prev (c # cs) =
     (case rx_match rx prev (c # cs) of
        None \<Rightarrow> c # replace_all rx rep (Some c) cs
      | Some 0 \<Rightarrow> rep @ c # replace_all rx rep (Some c) cs
      | Some (Suc m) \<Rightarrow> rep @ replace_all rx rep (char_before (Some c) cs m) (drop m cs))"

definition lit :: "string \<Rightarrow> atom list" where
  "lit s = map (\<lambda>c. Ch (Lit (of_char c))) s"

text \<open>\<open>name\s*=\<close>, the shape of the event-handler patterns.\<close>

definition handler :: "string \<Rightarrow> atom list" where
  "handler name = lit name @ [Rep Space 0 None] @ lit ''=''"

definition sqlPatterns :: "atom list list" where
  "sqlPatterns =
     [lit ''union'' @ [Rep Space 1 None] @ lit ''select'',
      lit ''drop'' @ [Rep Space 1 None] @ lit ''table'',
      lit ''insert'' @ [Rep Space 1 None] @ lit ''into'',
      lit ''delete'' @ [Rep Space 1 None] @ lit ''from'',
      lit ''update'' @ [Rep Space 1 None] @ lit ''set'',
      lit ''create'' @ [Rep Space 1 None] @ lit ''table'',
      lit ''alter'' @ [Rep Space 1 None] @ lit ''table'',
      lit ''exec'' @ [Rep Space 0 None] @ lit ''('',
      lit ''xp_cmdshell'',
      lit ''sp_executesql'']"

definition xssPatterns :: "atom list list" where
  "xssPatterns =
     [lit ''<script'' @ [WordBoundary],
      lit ''</script>'',
      lit ''<script'',
      lit ''javascript:'',
      lit ''vbscript:'',
      lit ''livescript:'',
      lit ''mocha:'',
      lit ''data:text/html'',
      lit ''data:application/javascript'',
      lit ''on'' @ [Rep WordC 1 None, Rep Space 0 None] @ lit ''='',
      handler ''onload'',
      handler ''onerror'',
      handler ''onclick'',
      handler ''onmouseover'',
      handler ''onfocus'',
      handler ''onblur'',
      handler ''onchange'',
      handler ''onsubmit'',
      handler ''onanimationend'',
      handler ''onbeforeunload'',
      handler ''onhashchange'',
      handler ''onpopstate'',
      handler ''ontransitionend'',
      lit ''expression'' @ [Rep Space 0 None] @ lit ''('',
      lit ''url'' @ [Rep Space 0 None] @ lit ''('' @ [Rep Space 0 None] @ lit ''javascript:'',
      lit ''@import'',
      lit ''<svg'' @ [WordBoundary],
      lit ''<math'' @ [WordBoundary],
      lit ''<xml'' @ [WordBoundary],
      lit ''xlink:href'',
      lit ''{{'' @ [Rep Dot 0 None] @ lit ''}}'',
      lit ''${'' @ [Rep Dot 0 None] @ lit ''}'',
      lit ''&#'' @ [Rep (Lit 120) 0 (Some 1), Rep Hex 1 None, Rep (Lit 59) 0 (Some 1)],
      lit ''%'' @ [Rep Hex 2 (Some 2)],
      [Ch (Lit 92)] @ lit ''u'' @ [Rep Hex 4 (Some 4)],
      [Ch (Lit 92)] @ lit ''x'' @ [Rep Hex 2 (Some 2)],
      lit ''<iframe'',
      lit ''<object'',
      lit ''<embed'',
      lit ''<applet'',
      lit ''<form'',
      lit ''<base'',
      lit ''<link'',
      lit ''<meta'',
      lit ''<style'']"

subsection \<open>sanitizeInput\<close>

text \<open>The class \<open>[\x00-\x1F\x7F-\x9F]\<close> of the source.\<close>

definition is_control :: "16 word \<Rightarrow> bool" where
  "is_control c \<longleftrightarrow> c \<le> 0x1F \<or> (0x7F \<le> c \<and> c \<le> 0x9F)"

text \<open>
  \<open>DOMPurify.sanitize\<close> with the options of the source is the parameter \<open>purify\<close>: the
  library is not code of this repository. The rest follows the source line by line:
  the length check, the replacement of every pattern in the order
  \<open>[...sqlPatterns, ...xssPatterns]\<close>, the removal of control characters, and the
  collapse of ten or more white-space code units followed by \<open>trim()\<close>.
\<close>

definition sanitizeInput :: "(jsstring \<Rightarrow> jsstring) \<Rightarrow> jsstring \<Rightarrow> exn + jsstring" where
  "sanitizeInput purify input =
     (if length input > 10000 then Inl (Error (js ''Input too long''))
      else
        let cleaned = purify input;
            sanitized = foldl (\<lambda>s pattern. replace_all pattern (js ''[SECURITY_BLOCKED]'') None s)
                          cleaned (sqlPatterns @ xssPatterns);
            sanitized = filter (\<lambda>c. \<not> is_control c) sanitized;
            sanitized = trim (replace_all [Rep Space 10 None] (js '' '') None sanitized)
        in Inr sanitized)"

section \<open>The browser\<close>

text \<open>
  The part of the browser the code reads and writes: the two key-value stores, the names
  of the Cache API caches and of the IndexedDB databases, and the class list of the root
  element. Promise callbacks are run at the place where they are registered.
\<close>

record browser =
  localStorage :: "jsstring \<rightharpoonup> jsstring"
  sessionStorage :: "jsstring \<rightharpoonup> jsstring"
  cacheNames :: "jsstring list"
  databases :: "jsstring list"
  rootClasses :: "jsstring set"

text \<open>
  What the platform allows. Each flag is one way in which a browser API is absent, throws
  or rejects: blocked storage (private browsing, denied permission), a missing Cache API
  or IndexedDB, rejected promises. \<open>randomByte i j\<close> is byte \<open>j\<close> of the \<open>i\<close>-th buffer
  that \<open>crypto.getRandomValues\<close> fills.
\<close>

record platform =
  localStorageBlocked :: bool
  sessionStorageBlocked :: bool
  hasCaches :: bool
  cachesKeysRejects :: bool
  hasIndexedDB :: bool
  hasDatabases :: bool
  databasesRejects :: bool
  deleteDatabaseThrows :: bool
  hasCrypto :: bool
  randomByte :: "nat \<Rightarrow> nat \<Rightarrow> 8 word"
  hasGc :: bool
  gcThrows :: bool

text \<open>
  A statement runs on the browser and either completes (\<open>None\<close>) or throws. \<open>seq\<close> is
  sequencing, where an exception skips what follows; \<open>try_catch\<close> is \<open>try { a } catch { h }\<close>.
\<close>

type_synonym stmt = "browser \<Rightarrow> exn option \<times> browser"

definition skip :: stmt where
  "skip w = (None, w)"

definition throw :: "exn \<Rightarrow> stmt" where
  "throw e w = (Some e, w)"

definition seq :: "stmt \<Rightarrow> stmt \<Rightarrow> stmt" where
  "seq a b w = (case a w of (None, w') \<Rightarrow> b w' | (Some e, w') \<Rightarrow> (Some e, w'))"

definition try_catch :: "stmt \<Rightarrow> (exn \<Rightarrow> stmt) \<Rightarrow> stmt" where
  "try_catch a h w = (case a w of (None, w') \<Rightarrow> (None, w') | (Some e, w') \<Rightarrow> h e w')"

fun for_each :: "('a \<Rightarrow> stmt) \<Rightarrow> 'a list \<Rightarrow> stmt" where
  "for_each f [] = skip"
| "for_each f (x # xs) = seq (f x) (for_each f xs)"

definition SecurityError :: exn where
  "SecurityError = JsError (js ''SecurityError'') (js ''The operation is insecure.'')"

definition QuotaExceededError :: exn where
  "QuotaExceededError = JsError (js ''QuotaExceededError'') (js ''The requested length exceeds 65536 bytes'')"

definition TypeError :: "jsstring \<Rightarrow> exn" where
  "TypeError msg = JsError (js ''TypeError'') msg"

definition localStorage_clear :: "platform \<Rightarrow> stmt" where
  "localStorage_clear pf =
     (if localStorageBlocked pf then throw SecurityError
      else (\<lambda>w. (None, w\<lparr>localStorage := Map.empty\<rparr>)))"

definition sessionStorage_clear :: "platform \<Rightarrow> stmt" where
  "sessionStorage_clear pf =
     (if sessionStorageBlocked pf then throw SecurityError
      else (\<lambda>w. (None, w\<lparr>sessionStorage := Map.empty\<rparr>)))"

definition localStorage_setItem :: "platform \<Rightarrow> jsstring \<Rightarrow> jsstring \<Rightarrow> stmt" where
  "localStorage_setItem pf k v =
     (if localStorageBlocked pf then throw SecurityError
      else (\<lambda>w. (None, w\<lparr>localStorage := (localStorage w)(k \<mapsto> v)\<rparr>)))"

definition deleteDatabase :: "platform \<Rightarrow> jsstring \<Rightarrow> stmt" where
  "deleteDatabase pf dbName =
     (if deleteDatabaseThrows pf then throw (JsError (js ''InvalidStateError'') [])
      else (\<lambda>w. (None, w\<lparr>databases := filter (\<lambda>n. n \<noteq> dbName) (databases w)\<rparr>)))"

text \<open>\<open>caches.delete(name)\<close> returns a promise that nobody awaits: it never throws here.\<close>

definition caches_delete :: "jsstring \<Rightarrow> stmt" where
  "caches_delete name w = (None, w\<lparr>cacheNames := filter (\<lambda>n. n \<noteq> name) (cacheNames w)\<rparr>)"

text \<open>
  \<open>crypto.getRandomValues(new Uint8Array(n))\<close>: the Web Crypto API throws a
  \<open>QuotaExceededError\<close> for more than 65536 bytes (the limit that \<open>totalMemoryWipe\<close>
  records in a comment). The buffer is dropped by every caller of this form.
\<close>

definition getRandomValues :: "nat \<Rightarrow> stmt" where
  "getRandomValues n = (if n > 65536 then throw QuotaExceededError else skip)"

fun repeat :: "nat \<Rightarrow> stmt \<Rightarrow> stmt" where
  "repeat 0 a = skip"
| "repeat (Suc n) a = seq a (repeat n a)"

section \<open>Storage scrub (src/lib/security-init.ts)\<close>

definition allowedDatabases :: "jsstring list" where
  "allowedDatabases =
     [js ''webllm'', js ''webllm-cache'', js ''mlc-wasm-cache'', js ''mlc-chat-config'',
      js ''tvmjs'']"

text \<open>
  The \<open>forEach\<close> over the result of \<open>indexedDB.databases()\<close>: a database is deleted unless
  its name contains an entry of \<open>keep\<close>. A database without a name is the name \<open>''\<close>.
\<close>

definition delete_unlisted :: "platform \<Rightarrow> jsstring list \<Rightarrow> jsstring list \<Rightarrow> stmt" where
  "delete_unlisted pf keep names =
     for_each (\<lambda>dbName.
        if \<not> list_ex (\<lambda>allowed. includes_str dbName allowed) keep
        then deleteDatabase pf dbName else skip) names"

text \<open>
  \<open>clearUserDataFromIndexedDB\<close>: the whole body is inside \<open>try\<close>, the rejection of the
  awaited promise included. Where the global \<open>indexedDB\<close> is missing, the test
  \<open>'databases' in indexedDB\<close> itself throws.
\<close>

definition clearUserDataFromIndexedDB :: "platform \<Rightarrow> stmt" where
  "clearUserDataFromIndexedDB pf =
     try_catch
       (if \<not> hasIndexedDB pf then throw (TypeError (js ''indexedDB is not defined''))
        else if hasDatabases pf then
          (if databasesRejects pf then throw (JsError (js ''UnknownError'') [])
           else (\<lambda>w. delete_unlisted pf allowedDatabases (databases w) w))
        else skip)
       (\<lambda>_. skip)"

text \<open>
  The cache part of \<open>secureMemoryWipe\<close>: the rejection of \<open>caches.keys()\<close> and every
  exception of the \<open>then\<close> callback end in the empty \<open>catch\<close> callback.
\<close>

definition wipe_caches :: "platform \<Rightarrow> stmt" where
  "wipe_caches pf =
     (if hasCaches pf then
        try_catch
          (if cachesKeysRejects pf then throw SecurityError
           else (\<lambda>w. for_each (\<lambda>name.
                   if \<not> includes_str name (js ''webllm'') \<and> \<not> includes_str name (js ''mlc'')
                   then caches_delete name else skip) (cacheNames w) w))
          (\<lambda>_. skip)
      else skip)"

definition secureMemoryWipe :: "platform \<Rightarrow> stmt" where
  "secureMemoryWipe pf =
     try_catch
       (seq (try_catch (seq (localStorage_clear pf) (sessionStorage_clear pf)) (\<lambda>_. skip))
       (seq (clearUserDataFromIndexedDB pf)
       (seq (wipe_caches pf)
            (if hasCrypto pf then repeat 2 (getRandomValues (256 * 1024)) else skip))))
       (\<lambda>_. skip)"

definition totalMemoryWipe :: "platform \<Rightarrow> stmt" where
  "totalMemoryWipe pf =
     seq (secureMemoryWipe pf)
         (if hasCrypto pf then repeat 20 (getRandomValues 65536) else skip)"

text \<open>The \<open>beforeunload\<close> listener of \<open>deployDataProtection\<close>.\<close>

definition beforeunload_scrub :: "platform \<Rightarrow> stmt" where
  "beforeunload_scrub pf =
     try_catch
       (seq (localStorage_clear pf) (seq (sessionStorage_clear pf) (clearUserDataFromIndexedDB pf)))
       (\<lambda>_. skip)"

section \<open>Chat state container (store/chat-store.ts)\<close>

text \<open>
  \<open>interface ModelConfig\<close> and \<open>interface ChatMessage\<close>. Field names that are constants
  of HOL or fields of another record carry a prefix. \<open>NoRole\<close> is the empty string that
  \<open>clearAllHistory\<close> writes into \<open>role\<close> through a cast.
\<close>

datatype gpu_requirement = Optional | Recommended | Required

datatype category = Tiny | Small | Medium | Large | XL | Coding

record ModelConfig =
  model_id :: jsstring
  model_name :: jsstring
  model_size :: jsstring
  model_ram :: int
  model_gpu :: gpu_requirement
  model_description :: jsstring
  model_category :: category

datatype Role = User | Assistant | System | NoRole

record ChatMessage =
  role :: Role
  content :: jsstring
  msg_timestamp :: nat

record ChatState =
  messages :: "ChatMessage list"
  selectedModel :: "ModelConfig option"
  isGenerating :: bool
  modelLoadingProgress :: int
  modelLoadingStatus :: jsstring
  isDarkMode :: bool
  autoDeleteChats :: bool
  systemInstruction :: jsstring
  storageEnabled :: bool
  contextTokenCount :: int
  showContextWarning :: bool

definition THEME_KEY :: jsstring where
  "THEME_KEY = js ''oblivai-theme''"

text \<open>The state the store is created with; \<open>dark\<close> is the value of \<open>getInitialDarkMode()\<close>.\<close>

definition initial_state :: "bool \<Rightarrow> ChatState" where
  "initial_state dark =
     \<lparr>messages = [], selectedModel = None, isGenerating = False, modelLoadingProgress = 0,
      modelLoadingStatus = [], isDarkMode = dark, autoDeleteChats = False,
      systemInstruction = [], storageEnabled = False, contextTokenCount = 0,
      showContextWarning = False\<rparr>"

text \<open>\<open>Math.ceil(totalChars / 4)\<close> for the sum of the content lengths.\<close>

definition estimateTokens :: "ChatMessage list \<Rightarrow> int" where
  "estimateTokens ms = int ((sum_list (map (\<lambda>msg. length (content msg)) ms) + 3) div 4)"

definition addMessage :: "nat \<Rightarrow> ChatMessage \<Rightarrow> ChatState \<Rightarrow> ChatState" where
  "addMessage now message state =
     (let newMessages = messages state @ [message\<lparr>msg_timestamp := now\<rparr>];
          estimatedTokens = estimateTokens newMessages;
          showWarning = (estimatedTokens > 2048)
      in state\<lparr>messages := newMessages, contextTokenCount := estimatedTokens,
               showContextWarning := showWarning\<rparr>)"

definition clearMessages :: "ChatState \<Rightarrow> ChatState" where
  "clearMessages state =
     state\<lparr>messages := [], contextTokenCount := 0, showContextWarning := False\<rparr>"

text \<open>\<open>Uint8Array.prototype.toString()\<close>: the decimal values joined by commas.\<close>

fun join :: "jsstring \<Rightarrow> jsstring list \<Rightarrow> jsstring" where
  "join sep [] = []"
| "join sep [x] = x"
| "join sep (x # y # ys) = x @ sep @ join sep (y # ys)"

definition uint8_toString :: "8 word list \<Rightarrow> jsstring" where
  "uint8_toString bytes = join (js '','') (map (\<lambda>b. show_nat (unat b)) bytes)"

text \<open>
  The overwrite loop of \<open>clearAllHistory\<close>. The message objects are the ones held in the
  store, so what the loop has written stays written when a later iteration throws.
  \<open>i\<close> counts the calls of \<open>getRandomValues\<close>.
\<close>

fun overwrite_messages ::
  "platform \<Rightarrow> nat \<Rightarrow> ChatMessage list \<Rightarrow> exn option \<times> ChatMessage list" where
  "overwrite_messages pf i [] = (None, [])"
| "overwrite_messages pf i (msg # rest) =
     (let len = length (content msg) in
      if \<not> hasCrypto pf
      then (Some (TypeError (js ''crypto.getRandomValues is not a function'')), msg # rest)
      else if len > 65536 then (Some QuotaExceededError, msg # rest)
      else
        let msg' = msg\<lparr>content := uint8_toString (map (randomByte pf i) [0..<len]),
                       role := NoRole\<rparr>
        in case overwrite_messages pf (Suc i) rest of
             (e, rest') \<Rightarrow> (e, msg' # rest'))"

text \<open>The scrub of browser storage at the end of \<open>clearAllHistory\<close>.\<close>

definition preserveDatabases :: "jsstring list" where
  "preserveDatabases = [js ''webllm'', js ''mlc-wasm-cache'', js ''mlc-chat-config'', js ''tvmjs'']"

definition clearAllHistory_scrub :: "platform \<Rightarrow> stmt" where
  "clearAllHistory_scrub pf =
     seq (try_catch (seq (localStorage_clear pf) (sessionStorage_clear pf)) (\<lambda>_. skip))
    (seq (if hasCaches pf then
            try_catch
              (if cachesKeysRejects pf then throw SecurityError
               else (\<lambda>w. for_each (\<lambda>cacheName.
                       if \<not> includes_str cacheName (js ''mlc'') \<and>
                          \<not> includes_str cacheName (js ''webllm'') \<and>
                          \<not> includes_str cacheName (js ''oblivai-static'')
                       then caches_delete cacheName else skip) (cacheNames w) w))
              (\<lambda>_. skip)
          else skip)
    (seq (if hasIndexedDB pf then
            try_catch
              (if hasDatabases pf then
                 try_catch
                   (if databasesRejects pf then throw (JsError (js ''UnknownError'') [])
                    else (\<lambda>w. delete_unlisted pf preserveDatabases (databases w) w))
                   (\<lambda>_. skip)
               else skip)
              (\<lambda>_. skip)
          else skip)
         (if hasGc pf then
            try_catch (if gcThrows pf then throw (Error []) else skip) (\<lambda>_. skip)
          else skip)))"

definition clearAllHistory ::
  "platform \<Rightarrow> ChatState \<Rightarrow> browser \<Rightarrow> exn option \<times> ChatState \<times> browser" where
  "clearAllHistory pf state w =
     (case overwrite_messages pf 0 (messages state) of
        (Some e, ms) \<Rightarrow> (Some e, state\<lparr>messages := ms\<rparr>, w)
      | (None, _) \<Rightarrow>
          let state' = state\<lparr>messages := [], contextTokenCount := 0,
                            showContextWarning := False, systemInstruction := []\<rparr>
          in case clearAllHistory_scrub pf w of (e, w') \<Rightarrow> (e, state', w'))"

definition setSelectedModel :: "ModelConfig \<Rightarrow> ChatState \<Rightarrow> ChatState" where
  "setSelectedModel model state = state\<lparr>selectedModel := Some model\<rparr>"

definition setGenerating :: "bool \<Rightarrow> ChatState \<Rightarrow> ChatState" where
  "setGenerating g state = state\<lparr>isGenerating := g\<rparr>"

definition setModelLoadingProgress :: "int \<Rightarrow> jsstring \<Rightarrow> ChatState \<Rightarrow> ChatState" where
  "setModelLoadingProgress progress status state =
     state\<lparr>modelLoadingProgress := progress, modelLoadingStatus := status\<rparr>"

definition toggleDarkMode :: "platform \<Rightarrow> ChatState \<Rightarrow> browser \<Rightarrow> ChatState \<times> browser" where
  "toggleDarkMode pf state w =
     (let newMode = \<not> isDarkMode state;
          w1 = (if newMode
                then w\<lparr>rootClasses := insert (js ''dark'') (rootClasses w - {js ''light''})\<rparr>
                else w\<lparr>rootClasses := insert (js ''light'') (rootClasses w - {js ''dark''})\<rparr>);
          w2 = snd (try_catch
                      (localStorage_setItem pf THEME_KEY
                         (if newMode then js ''dark'' else js ''light''))
                      (\<lambda>_. skip) w1)
      in (state\<lparr>isDarkMode := newMode\<rparr>, w2))"

definition setAutoDeleteChats :: "bool \<Rightarrow> ChatState \<Rightarrow> ChatState" where
  "setAutoDeleteChats autoDelete state = state\<lparr>autoDeleteChats := autoDelete\<rparr>"

definition setSystemInstruction :: "jsstring \<Rightarrow> ChatState \<Rightarrow> ChatState" where
  "setSystemInstruction instruction state = state\<lparr>systemInstruction := instruction\<rparr>"

definition enableStorage :: "ChatState \<Rightarrow> ChatState" where
  "enableStorage state = state\<lparr>storageEnabled := False\<rparr>"

definition disableStorage :: "ChatState \<Rightarrow> ChatState" where
  "disableStorage state = state\<lparr>storageEnabled := False\<rparr>"

text \<open>\<open>exportChat\<close> returns the document; \<open>isoDate\<close> is \<open>new Date().toISOString()\<close>.\<close>

definition exportChat :: "jsstring \<Rightarrow> ChatState \<Rightarrow> jsstring" where
  "exportChat isoDate state =
     (let markdown = join [newline, newline]
            (map (\<lambda>msg. js ''**'' @ (if role msg = User then js ''You'' else js ''AI'') @
                          js ''**: '' @ content msg) (messages state));
          modelName = (case selectedModel state of
                         None \<Rightarrow> js ''Unknown''
                       | Some m \<Rightarrow> if model_name m = [] then js ''Unknown'' else model_name m);
          header = js ''# OBLIVAI Chat Export'' @ [newline, newline] @ js ''Exported: '' @ isoDate @
                   [newline] @ js ''Model: '' @ modelName @ [newline, newline] @ js ''---'' @
                   [newline, newline]
      in header @ markdown)"

definition updateContextTokenCount :: "int \<Rightarrow> ChatState \<Rightarrow> ChatState" where
  "updateContextTokenCount count state =
     state\<lparr>contextTokenCount := count, showContextWarning := (count > 2048)\<rparr>"

definition dismissContextWarning :: "ChatState \<Rightarrow> ChatState" where
  "dismissContextWarning state = state\<lparr>showContextWarning := False\<rparr>"

text \<open>
  The operations of the container, and a sequence of them run one after the other. An
  exception of \<open>clearAllHistory\<close> ends that call only: the store keeps the state the call
  left, and the next operation runs on it.
\<close>

datatype store_op =
    AddMessage nat ChatMessage
  | ClearMessages
  | ClearAllHistory
  | SetSelectedModel ModelConfig
  | SetGenerating bool
  | SetModelLoadingProgress int jsstring
  | ToggleDarkMode
  | SetAutoDeleteChats bool
  | SetSystemInstruction jsstring
  | EnableStorage
  | DisableStorage
  | ExportChat jsstring
  | UpdateContextTokenCount int
  | DismissContextWarning

fun run_op :: "platform \<Rightarrow> ChatState \<times> browser \<Rightarrow> store_op \<Rightarrow> ChatState \<times> browser" where
  "run_op pf (st, w) (AddMessage now m) = (addMessage now m st, w)"
| "run_op pf (st, w) ClearMessages = (clearMessages st, w)"
| "run_op pf (st, w) ClearAllHistory = snd (clearAllHistory pf st w)"
| "run_op pf (st, w) (SetSelectedModel m) = (setSelectedModel m st, w)"
| "run_op pf (st, w) (SetGenerating g) = (setGenerating g st, w)"
| "run_op pf (st, w) (SetModelLoadingProgress p s) = (setModelLoadingProgress p s st, w)"
| "run_op pf (st, w) ToggleDarkMode = toggleDarkMode pf st w"
| "run_op pf (st, w) (SetAutoDeleteChats a) = (setAutoDeleteChats a st, w)"
| "run_op pf (st, w) (SetSystemInstruction s) = (setSystemInstruction s st, w)"
| "run_op pf (st, w) EnableStorage = (enableStorage st, w)"
| "run_op pf (st, w) DisableStorage = (disableStorage st, w)"
| "run_op pf (st, w) (ExportChat isoDate) = (st, w)"
| "run_op pf (st, w) (UpdateContextTokenCount c) = (updateContextTokenCount c st, w)"
| "run_op pf (st, w) DismissContextWarning = (dismissContextWarning st, w)"

definition run_ops :: "platform \<Rightarrow> store_op list \<Rightarrow> ChatState \<times> browser \<Rightarrow> ChatState \<times> browser" where
  "run_ops pf ops sw = foldl (run_op pf) sw ops"

text \<open>
  Durable storage before (\<open>w\<close>) and after (\<open>w'\<close>) a run. \<open>nothing_written\<close>: every
  entry of the key-value stores and every cache and database present afterwards was
  there before, unchanged. \<open>only_theme_written\<close>: the same, except that \<open>localStorage\<close>
  may hold the theme preference under \<open>THEME_KEY\<close>.
\<close>

definition is_message_op :: "store_op \<Rightarrow> bool" where
  "is_message_op op =
     (case op of AddMessage _ _ \<Rightarrow> True | ClearMessages \<Rightarrow> True | ClearAllHistory \<Rightarrow> True
      | _ \<Rightarrow> False)"

definition nothing_written :: "browser \<Rightarrow> browser \<Rightarrow> bool" where
  "nothing_written w w' \<longleftrightarrow>
     (\<forall>k v. localStorage w' k = Some v \<longrightarrow> localStorage w k = Some v) \<and>
     (\<forall>k v. sessionStorage w' k = Some v \<longrightarrow> sessionStorage w k = Some v) \<and>
     set (cacheNames w') \<subseteq> set (cacheNames w) \<and>
     set (databases w') \<subseteq> set (databases w)"

definition only_theme_written :: "browser \<Rightarrow> browser \<Rightarrow> bool" where
  "only_theme_written w w' \<longleftrightarrow>
     (\<forall>k v. localStorage w' k = Some v \<longrightarrow>
        localStorage w k = Some v \<or> (k = THEME_KEY \<and> (v = js ''dark'' \<or> v = js ''light''))) \<and>
     (\<forall>k v. sessionStorage w' k = Some v \<longrightarrow> sessionStorage w k = Some v) \<and>
     set (cacheNames w') \<subseteq> set (cacheNames w) \<and>
     set (databases w') \<subseteq> set (databases w)"

definition shrinks :: "stmt \<Rightarrow> bool" where
  "shrinks a \<longleftrightarrow> (\<forall>w. nothing_written w (snd (a w)))"

section \<open>Inference client (src/lib/webllm-service.ts)\<close>

text \<open>
  The fields of \<open>class WebLLMService\<close>. An engine object is the handle the constructor
  of the inference library returned. \<open>abortController\<close> is \<open>null\<close> or a controller, of which
  only \<open>signal.aborted\<close> is read.
\<close>

record WebLLMService =
  engine :: "nat option"
  currentModel :: "jsstring option"
  isLoading :: bool
  loadingProgress :: int
  loadingStatus :: jsstring
  abortController :: "bool option"

definition new_service :: WebLLMService where
  "new_service =
     \<lparr>engine = None, currentModel = None, isLoading = False, loadingProgress = 0,
      loadingStatus = [], abortController = None\<rparr>"

text \<open>
  What the service does to the world outside it, in the order in which it does it: calls
  of the inference library and of the \<open>onProgress\<close> callback.
\<close>

datatype effect =
    EngineUnload nat
  | EngineCreate nat
  | EngineReload nat jsstring
  | OnProgress int jsstring
  | ChatCreate nat "(Role \<times> jsstring) list" int

text \<open>
  \<open>cleanup\<close> is an \<open>async\<close> method that suspends at \<open>await this.engine.unload()\<close>.
  \<open>cleanup_begin\<close> is what it does up to that point, the call of \<open>unload\<close>;
  \<open>cleanup_end\<close> is what it does when it is resumed. An exception of \<open>unload\<close> is caught
  and dropped, so the fields are reset whether the call succeeds or not. \<open>cleanup\<close> is
  the two halves with nothing running in between.
\<close>

definition cleanup_begin :: "WebLLMService \<Rightarrow> effect list" where
  "cleanup_begin svc = (case engine svc of None \<Rightarrow> [] | Some e \<Rightarrow> [EngineUnload e])"

definition cleanup_end :: "WebLLMService \<Rightarrow> WebLLMService" where
  "cleanup_end svc =
     svc\<lparr>engine := None, currentModel := None, loadingProgress := 0, loadingStatus := []\<rparr>"

definition cleanup :: "WebLLMService \<Rightarrow> effect list \<times> WebLLMService" where
  "cleanup svc = (cleanup_begin svc, cleanup_end svc)"

text \<open>
  One progress report of the library: \<open>Math.round(report.progress * 100)\<close> where
  \<open>progress\<close> is present, \<open>Math.round(report.timeElapsed)\<close> where \<open>timeElapsed\<close> is truthy,
  and \<open>report.text\<close>.
\<close>

record report =
  report_percent :: "int option"
  report_elapsed :: "nat option"
  report_text :: "jsstring option"

datatype adapter_result = AdapterFound | AdapterNull | AdapterRejects

text \<open>
  What the platform and the library answer during one \<open>initializeModel\<close>: the tests of
  \<open>navigator.userAgent\<close>, the WebGPU adapter request, the engine the constructor returns
  or the exception it throws, the progress reports during \<open>reload\<close> and its outcome.
\<close>

record load_env =
  isIOS :: bool
  isMobile :: bool
  gpuInNavigator :: bool
  adapter :: adapter_result
  newEngine :: nat
  constructorThrows :: "exn option"
  reports :: "report list"
  reloadThrows :: "exn option"

definition hasWebGPU :: "load_env \<Rightarrow> bool" where
  "hasWebGPU env \<longleftrightarrow> \<not> isIOS env \<and> gpuInNavigator env \<and> adapter env = AdapterFound"

definition progress_status :: "load_env \<Rightarrow> int \<Rightarrow> jsstring" where
  "progress_status env progressPercent =
     (let gpuType = (if hasWebGPU env then js ''WebGPU (RTX GPU)''
                     else if isMobile env then js ''GPU'' else js ''WebGPU'')
      in if progressPercent < 5 then js ''Initializing '' @ gpuType @ js ''...''
         else if progressPercent < 15 then js ''Checking model cache...''
         else if progressPercent < 25 then js ''Downloading model metadata...''
         else if progressPercent < 40 then js ''Downloading model weights...''
         else if progressPercent < 55 then js ''Loading model into memory...''
         else if progressPercent < 70 then js ''Compiling '' @ gpuType @ js '' shaders...''
         else if progressPercent < 85 then js ''Optimizing for your device...''
         else if progressPercent < 95 then js ''Finalizing model initialization...''
         else js ''Almost ready...'')"

text \<open>\<open>initProgressCallback\<close>.\<close>

definition initProgressCallback ::
  "load_env \<Rightarrow> effect list \<times> WebLLMService \<Rightarrow> report \<Rightarrow> effect list \<times> WebLLMService" where
  "initProgressCallback env acc r =
     (case report_percent r of
        None \<Rightarrow> acc
      | Some progressPercent \<Rightarrow>
          let status = progress_status env progressPercent;
              status = (case report_elapsed r of
                          None \<Rightarrow> status
                        | Some elapsed \<Rightarrow> status @ js '' ('' @ show_nat elapsed @ js ''s)'');
              status = (case report_text r of
                          None \<Rightarrow> status
                        | Some t \<Rightarrow> if length t > 0 then t else status)
          in (fst acc @ [OnProgress progressPercent status],
              (snd acc)\<lparr>loadingProgress := progressPercent, loadingStatus := status\<rparr>))"

text \<open>The message of the error that \<open>initializeModel\<close> throws for a failed load.\<close>

definition userFriendlyMessage :: "load_env \<Rightarrow> jsstring \<Rightarrow> jsstring" where
  "userFriendlyMessage env errorMessage =
     (let lower = toLowerCase errorMessage in
      if includes_str lower (js ''webgpu'') \<or> includes_str lower (js ''gpu'') then
        (if isMobile env then
           js ''GPU initialization failed on your mobile device. This usually means:'' @
           [newline, newline] @
           js ''1. Your browser needs WebGL enabled (check browser settings)'' @ [newline] @
           js ''2. Your device might be low on memory (close other apps)'' @ [newline] @
           js ''3. Try a smaller model (Qwen2 0.5B or Llama 3.2 1B work best on mobile)'' @
           [newline, newline] @
           js ''Check browser console for more details.''
         else js ''GPU acceleration not available. Your browser or device may not support it. Try Chrome/Edge on desktop, or select a smaller model.'')
      else if includes_str lower (js ''network'') \<or> includes_str lower (js ''fetch'') \<or>
              includes_str lower (js ''download'') then
        js ''Network error while downloading model. Check your internet connection and try again.''
      else if includes_str lower (js ''memory'') \<or> includes_str lower (js ''oom'') \<or>
              includes_str lower (js ''out of memory'') then
        (if isMobile env then
           js ''Out of memory on your mobile device. Try:'' @ [newline, newline] @
           js ''1. Close other apps and browser tabs'' @ [newline] @
           js ''2. Restart your browser'' @ [newline] @
           js ''3. Use a smaller model (Qwen2 0.5B only needs 2GB RAM)''
         else js ''Out of memory. This model is too large for your device. Please select a smaller model from the Tiny category.'')
      else if includes_str lower (js ''abort'') \<or> includes_str lower (js ''cancel'') then
        js ''Model loading was cancelled.''
      else errorMessage)"

subsection \<open>initializeModel\<close>

text \<open>
  \<open>initializeModel(modelConfig, onProgress)\<close> is an \<open>async\<close> method. It runs until it
  reaches an \<open>await\<close>, is suspended there, and is resumed later; between the two,
  other code of the page runs on the same fields, another call of \<open>initializeModel\<close>
  included. The places where a call can be suspended:
  \<^item> \<open>AwaitUnload\<close>: at \<open>await this.cleanup()\<close>, inside which \<open>engine.unload()\<close> is awaited;
  \<^item> \<open>AwaitAdapter\<close>: at \<open>await navigator.gpu.requestAdapter()\<close>, reached where the device
    is not an iOS device and \<open>navigator\<close> has \<open>gpu\<close>;
  \<^item> \<open>AwaitReload\<close>: at \<open>await this.engine.reload(modelConfig.id)\<close>.
  \<open>AtStart\<close> is the call before it has run, \<open>Finished r\<close> the call after it has returned
  (\<open>None\<close>) or thrown. The detection of the GPU name only feeds the development log and
  is left out.
\<close>

datatype init_pc = AtStart | AwaitUnload | AwaitAdapter | AwaitReload | Finished "exn option"

text \<open>
  The \<open>catch\<close> and \<open>finally\<close> clauses for an exception \<open>e\<close> of the \<open>try\<close> block; \<open>ev\<close> are
  the effects of the running piece so far.
\<close>

definition fail_load ::
  "load_env \<Rightarrow> exn \<Rightarrow> effect list \<Rightarrow> WebLLMService
     \<Rightarrow> init_pc \<times> effect list \<times> WebLLMService" where
  "fail_load env e ev svc =
     (let errorMessage = message_or (js ''Unknown error'') e;
          status = js ''Error loading model: '' @ errorMessage
      in (Finished (Some (Error (userFriendlyMessage env errorMessage))),
          ev @ [OnProgress 0 status],
          svc\<lparr>loadingStatus := status, isLoading := False\<rparr>))"

text \<open>
  The \<open>try\<close> block up to the \<open>await\<close> of \<open>reload\<close>: the engine is constructed, stored in
  \<open>this.engine\<close>, and \<open>reload\<close> is called on \<open>this.engine\<close>.
\<close>

definition create_engine ::
  "load_env \<Rightarrow> ModelConfig \<Rightarrow> effect list \<Rightarrow> WebLLMService
     \<Rightarrow> init_pc \<times> effect list \<times> WebLLMService" where
  "create_engine env modelConfig ev svc =
     (let status5 = (if hasWebGPU env then js ''Initializing WebGPU engine...''
                     else if isIOS env then js ''Initializing WebGL engine...''
                     else js ''Creating ML engine...'');
          svc1 = svc\<lparr>loadingStatus := status5\<rparr>;
          ev1 = ev @ [OnProgress 5 status5]
      in case constructorThrows env of
           Some e \<Rightarrow> fail_load env e ev1 svc1
         | None \<Rightarrow>
             (let status10 = (if hasWebGPU env then js ''Starting GPU-accelerated download...''
                              else js ''Starting model download...'')
              in (AwaitReload,
                  ev1 @ [EngineCreate (newEngine env), OnProgress 10 status10,
                         EngineReload (newEngine env) (model_id modelConfig)],
                  svc1\<lparr>engine := Some (newEngine env), loadingStatus := status10\<rparr>)))"

text \<open>
  From the test for the model that is already loaded (after the \<open>cleanup\<close> branch) up
  to the next \<open>await\<close>. \<open>this.isLoading = true\<close> is set here, without a second look at
  the flag.
\<close>

definition begin_load ::
  "load_env \<Rightarrow> ModelConfig \<Rightarrow> WebLLMService \<Rightarrow> init_pc \<times> effect list \<times> WebLLMService" where
  "begin_load env modelConfig svc =
     (if engine svc \<noteq> None \<and> currentModel svc = Some (model_id modelConfig)
      then (Finished None, [], svc)
      else
        let svc2 = svc\<lparr>isLoading := True, loadingProgress := 0,
                        loadingStatus := js ''Initializing model...''\<rparr>;
            ev2 = [OnProgress 0 (js ''Initializing model...'')]
        in if \<not> isIOS env \<and> gpuInNavigator env then (AwaitAdapter, ev2, svc2)
           else create_engine env modelConfig ev2 svc2)"

text \<open>
  The call resumed after \<open>reload\<close>: the progress reports of the library, then the rest of
  the \<open>try\<close> block or, for a rejected \<open>reload\<close>, the \<open>catch\<close> clause, and \<open>finally\<close>.
\<close>

definition finish_reload ::
  "load_env \<Rightarrow> ModelConfig \<Rightarrow> WebLLMService \<Rightarrow> init_pc \<times> effect list \<times> WebLLMService" where
  "finish_reload env modelConfig svc =
     (case foldl (initProgressCallback env) ([], svc) (reports env) of
        (ev3, svc3) \<Rightarrow>
          (case reloadThrows env of
             Some e \<Rightarrow> fail_load env e ev3 svc3
           | None \<Rightarrow>
               (Finished None,
                ev3 @ [OnProgress 100 (js ''Model loaded successfully'')],
                svc3\<lparr>loadingProgress := 100,
                     loadingStatus := js ''Model loaded successfully'',
                     currentModel := Some (model_id modelConfig),
                     isLoading := False\<rparr>)))"

text \<open>
  One piece of a call: from where the call stands to its next \<open>await\<close> or to its end,
  on the fields as they are when the piece starts. The guard on \<open>isLoading\<close> is read in the
  first piece only.
\<close>

fun init_step ::
  "load_env \<Rightarrow> ModelConfig \<Rightarrow> init_pc \<Rightarrow> WebLLMService
     \<Rightarrow> init_pc \<times> effect list \<times> WebLLMService" where
  "init_step env modelConfig AtStart svc =
     (if isLoading svc then (Finished (Some (Error (js ''Model is already loading''))), [], svc)
      else if engine svc \<noteq> None \<and> currentModel svc \<noteq> Some (model_id modelConfig)
      then (AwaitUnload, cleanup_begin svc, svc)
      else begin_load env modelConfig svc)"
| "init_step env modelConfig AwaitUnload svc = begin_load env modelConfig (cleanup_end svc)"
| "init_step env modelConfig AwaitAdapter svc = create_engine env modelConfig [] svc"
| "init_step env modelConfig AwaitReload svc = finish_reload env modelConfig svc"
| "init_step env modelConfig (Finished r) svc = (Finished r, [], svc)"

text \<open>How many pieces a call has left at most.\<close>

fun init_rank :: "init_pc \<Rightarrow> nat" where
  "init_rank AtStart = 4"
| "init_rank AwaitUnload = 3"
| "init_rank AwaitAdapter = 2"
| "init_rank AwaitReload = 1"
| "init_rank (Finished r) = 0"

lemma init_step_rank:
  "init_rank pc \<noteq> 0 \<Longrightarrow> init_rank (fst (init_step env modelConfig pc svc)) < init_rank pc"
  by (cases pc)
     (auto simp: begin_load_def create_engine_def finish_reload_def fail_load_def Let_def
           split: option.splits prod.splits)

text \<open>
  A call that runs to its end with nothing else running in between: the exception it
  ends with, if any, its effects in their order, and the fields afterwards.
\<close>

function init_run ::
  "load_env \<Rightarrow> ModelConfig \<Rightarrow> init_pc \<Rightarrow> WebLLMService
     \<Rightarrow> exn option \<times> effect list \<times> WebLLMService" where
  "init_run env modelConfig pc svc =
     (if init_rank pc = 0 then ((case pc of Finished r \<Rightarrow> r | _ \<Rightarrow> None), [], svc)
      else case init_step env modelConfig pc svc of
             (pc', ev, svc') \<Rightarrow>
               (case init_run env modelConfig pc' svc' of
                  (r, ev', svc'') \<Rightarrow> (r, ev @ ev', svc'')))"
  by pat_completeness auto
termination
proof (relation "measure (\<lambda>(env, modelConfig, pc, svc). init_rank pc)", goal_cases)
  case 1
  show ?case by simp
next
  case (2 env modelConfig pc svc x y z w)
  from 2(2) have "fst (init_step env modelConfig pc svc) = x"
    by (metis fst_conv)
  with init_step_rank [of pc env modelConfig svc] 2(1) show ?case by simp
qed

definition initializeModel ::
  "load_env \<Rightarrow> ModelConfig \<Rightarrow> WebLLMService \<Rightarrow> exn option \<times> effect list \<times> WebLLMService" where
  "initializeModel env modelConfig svc = init_run env modelConfig AtStart svc"

text \<open>The rest of such a call behind one of its pieces.\<close>

definition run_from ::
  "load_env \<Rightarrow> ModelConfig \<Rightarrow> init_pc \<times> effect list \<times> WebLLMService
     \<Rightarrow> exn option \<times> effect list \<times> WebLLMService" where
  "run_from env modelConfig x =
     (case x of
        (pc', ev, svc') \<Rightarrow>
          (case init_run env modelConfig pc' svc' of
             (r, ev', svc'') \<Rightarrow> (r, ev @ ev', svc'')))"

text \<open>
  Calls that overlap. Each call has its own arguments and its own answers of the
  platform; \<open>advance i\<close> runs the next piece of call \<open>i\<close> on the shared fields, and
  \<open>interleave\<close> runs the pieces in the order of a schedule.
\<close>

record init_call =
  call_env :: load_env
  call_model :: ModelConfig
  call_pc :: init_pc

definition advance ::
  "nat \<Rightarrow> init_call list \<Rightarrow> WebLLMService \<Rightarrow> effect list \<times> init_call list \<times> WebLLMService" where
  "advance i calls svc =
     (if i < length calls then
        (case init_step (call_env (calls ! i)) (call_model (calls ! i)) (call_pc (calls ! i)) svc of
           (pc', ev, svc') \<Rightarrow> (ev, calls[i := (calls ! i)\<lparr>call_pc := pc'\<rparr>], svc'))
      else ([], calls, svc))"

fun interleave ::
  "nat list \<Rightarrow> init_call list \<Rightarrow> WebLLMService
     \<Rightarrow> effect list \<times> init_call list \<times> WebLLMService" where
  "interleave [] calls svc = ([], calls, svc)"
| "interleave (i # schedule) calls svc =
     (case advance i calls svc of
        (ev, calls', svc') \<Rightarrow>
          (case interleave schedule calls' svc' of
             (ev', calls'', svc'') \<Rightarrow> (ev @ ev', calls'', svc'')))"

definition isModelLoaded :: "WebLLMService \<Rightarrow> bool" where
  "isModelLoaded svc \<longleftrightarrow> engine svc \<noteq> None"

definition getCurrentModel :: "WebLLMService \<Rightarrow> jsstring option" where
  "getCurrentModel svc = currentModel svc"

text \<open>
  \<open>cancelGeneration\<close>: where the field holds a controller, \<open>abort()\<close> is called on it and
  the field is set to \<open>null\<close>. \<open>cancel_controller\<close> is what the call does to the field.
\<close>

definition cancel_controller :: "bool option \<Rightarrow> bool option" where
  "cancel_controller ac = (case ac of None \<Rightarrow> None | Some _ \<Rightarrow> None)"

definition cancelGeneration :: "WebLLMService \<Rightarrow> WebLLMService" where
  "cancelGeneration svc = svc\<lparr>abortController := cancel_controller (abortController svc)\<rparr>"

definition dispose :: "WebLLMService \<Rightarrow> effect list \<times> WebLLMService" where
  "dispose svc = (case cleanup svc of (ev, svc') \<Rightarrow> (ev, cancelGeneration svc'))"

subsection \<open>Streaming generation\<close>

text \<open>
  What arrives while \<open>generateResponse\<close> iterates over the completion: a chunk with its
  \<open>choices[0]?.delta?.content\<close>, an exception of the iterator, or, while the loop waits
  for the next chunk, the user pressing the stop button (\<open>handleStopGeneration\<close>, which
  calls \<open>cancelGeneration\<close>).
\<close>

datatype stream_item = Chunk "jsstring option" | Stop | Fail exn

text \<open>What the caller observes during the loop: \<open>onToken\<close> calls and the stop presses.\<close>

datatype gen_event = Token jsstring | Stopped

text \<open>
  \<open>purify\<close> is \<open>DOMPurify.sanitize\<close> as in \<open>sanitizeInput\<close>; \<open>createThrows\<close> is the rejection
  of \<open>engine.chat.completions.create\<close>; \<open>nullSignalMessage\<close> is the message of the
  \<open>TypeError\<close> that the engine raises for reading the property \<open>signal\<close> of \<open>null\<close>.
\<close>

record gen_env =
  purify :: "jsstring \<Rightarrow> jsstring"
  createThrows :: "exn option"
  stream :: "stream_item list"
  nullSignalMessage :: jsstring

text \<open>
  The \<open>for await\<close> loop. The loop reads the field \<open>this.abortController\<close> anew for every
  chunk; \<open>ac\<close> is the value of the field. The result is the exception that ends the loop,
  if any, the field, \<open>fullResponse\<close>, and the events.
\<close>

fun stream_loop ::
  "jsstring \<Rightarrow> bool option \<Rightarrow> jsstring \<Rightarrow> stream_item list
     \<Rightarrow> exn option \<times> bool option \<times> jsstring \<times> gen_event list" where
  "stream_loop nullmsg ac full [] = (None, ac, full, [])"
| "stream_loop nullmsg ac full (Stop # rest) =
     (case stream_loop nullmsg (cancel_controller ac) full rest of
        (e, ac', full', evs) \<Rightarrow> (e, ac', full', Stopped # evs))"
| "stream_loop nullmsg ac full (Fail e # rest) = (Some e, ac, full, [])"
| "stream_loop nullmsg ac full (Chunk d # rest) =
     (case ac of
        None \<Rightarrow> (Some (TypeError nullmsg), ac, full, [])
      | Some aborted \<Rightarrow>
          if aborted then (None, ac, full, [])
          else (case d of
                  None \<Rightarrow> stream_loop nullmsg ac full rest
                | Some delta \<Rightarrow>
                    if delta = [] then stream_loop nullmsg ac full rest
                    else (case stream_loop nullmsg ac (full @ delta) rest of
                            (e, ac', full', evs) \<Rightarrow> (e, ac', full', Token delta # evs))))"

text \<open>The conversion of the messages, where user content is sanitised again.\<close>

fun convert_messages ::
  "(jsstring \<Rightarrow> jsstring) \<Rightarrow> ChatMessage list \<Rightarrow> exn + (Role \<times> jsstring) list" where
  "convert_messages pur [] = Inr []"
| "convert_messages pur (msg # rest) =
     (case (if role msg = User then sanitizeInput pur (content msg) else Inr (content msg)) of
        Inl e \<Rightarrow> Inl e
      | Inr c \<Rightarrow>
          (case convert_messages pur rest of
             Inl e \<Rightarrow> Inl e
           | Inr cs \<Rightarrow> Inr ((role msg, c) # cs)))"

text \<open>The \<open>catch\<close> clause of \<open>generateResponse\<close>.\<close>

definition generation_error :: "exn \<Rightarrow> WebLLMService \<Rightarrow> exn \<times> WebLLMService" where
  "generation_error e svc =
     (if (case e of JsError name _ \<Rightarrow> name = js ''AbortError'' | Thrown _ \<Rightarrow> False)
      then (Error (js ''Generation cancelled''), svc)
      else
        let errorMessage = message_or_string e;
            isGPULost = (includes_str errorMessage (js ''Instance reference no longer exists'') \<or>
                         includes_str errorMessage (js ''Device was lost'') \<or>
                         includes_str errorMessage (js ''GPUDeviceLostInfo'') \<or>
                         includes_str errorMessage (js ''OperationError''))
        in if isGPULost
           then (Error (js ''GPU_DEVICE_LOST: GPU ran out of memory. Please reload the model or try a smaller one.''),
                 svc\<lparr>engine := None, currentModel := None\<rparr>)
           else (Error (js ''Failed to generate response: '' @ errorMessage), svc))"

text \<open>
  The body of the \<open>try\<close> block of \<open>generateResponse\<close>, for the engine \<open>eng\<close>. \<open>maxTokens\<close> and
  \<open>systemInstruction\<close> are optional parameters.
\<close>

definition generate_body ::
  "gen_env \<Rightarrow> nat \<Rightarrow> ChatMessage list \<Rightarrow> int option \<Rightarrow> jsstring option \<Rightarrow> WebLLMService
     \<Rightarrow> (exn + jsstring) \<times> gen_event list \<times> effect list \<times> WebLLMService" where
  "generate_body env eng msgs maxTokens sysInstruction svc =
     (let sys = (case sysInstruction of
                   None \<Rightarrow> []
                 | Some s \<Rightarrow> if s \<noteq> [] \<and> trim s \<noteq> [] then [(System, trim s)] else [])
      in case convert_messages (purify env) msgs of
           Inl e \<Rightarrow> (Inl e, [], [], svc)
         | Inr converted \<Rightarrow>
             (let svc1 = svc\<lparr>abortController := Some False\<rparr>;
                  eff = [ChatCreate eng (sys @ converted)
                           (min (case maxTokens of None \<Rightarrow> 1024 | Some m \<Rightarrow> m) 1024)]
              in (case createThrows env of
                    Some e \<Rightarrow> (Inl e, [], eff, svc1)
                  | None \<Rightarrow>
                      (case stream_loop (nullSignalMessage env) (Some False) [] (stream env) of
                         (None, ac, full, evs) \<Rightarrow>
                           (Inr full, evs, eff, svc1\<lparr>abortController := ac\<rparr>)
                       | (Some e, ac, full, evs) \<Rightarrow>
                           (Inl e, evs, eff, svc1\<lparr>abortController := ac\<rparr>)))))"

definition generateResponse ::
  "gen_env \<Rightarrow> ChatMessage list \<Rightarrow> int option \<Rightarrow> jsstring option \<Rightarrow> WebLLMService
     \<Rightarrow> (exn + jsstring) \<times> gen_event list \<times> effect list \<times> WebLLMService" where
  "generateResponse env msgs maxTokens sysInstruction svc =
     (case engine svc of
        None \<Rightarrow> (Inl (Error (js ''Model not initialized'')), [], [], svc)
      | Some eng \<Rightarrow>
          (case generate_body env eng msgs maxTokens sysInstruction svc of
             (Inr full, evs, eff, svc1) \<Rightarrow> (Inr full, evs, eff, svc1\<lparr>abortController := None\<rparr>)
           | (Inl e, evs, eff, svc1) \<Rightarrow>
               (case generation_error e svc1 of
                  (e', svc2) \<Rightarrow> (Inl e', evs, eff, svc2\<lparr>abortController := None\<rparr>))))"

definition getTokenCount :: "jsstring \<Rightarrow> int" where
  "getTokenCount t = int ((length t + 3) div 4)"

text \<open>The calls of the inference library among the effects.\<close>

definition is_engine_call :: "effect \<Rightarrow> bool" where
  "is_engine_call e = (case e of OnProgress _ _ \<Rightarrow> False | _ \<Rightarrow> True)"

definition engine_calls :: "effect list \<Rightarrow> effect list" where
  "engine_calls effs = filter is_engine_call effs"

text \<open>
  The engines that exist after the effects, given the ones before: the constructor adds
  an engine, \<open>unload\<close> frees one.
\<close>

definition live_engines :: "nat list \<Rightarrow> effect list \<Rightarrow> nat list" where
  "live_engines before effs =
     foldl (\<lambda>live e. case e of
                        EngineCreate n \<Rightarrow> live @ [n]
                      | EngineUnload n \<Rightarrow> filter (\<lambda>k. k \<noteq> n) live
                      | _ \<Rightarrow> live) before effs"

text \<open>
  What a call for \<open>m\<close> that starts on the fields \<open>svc0\<close> without an engine to unload
  has done when it ends with \<open>res\<close>: the calls of the library are the construction and
  the \<open>reload\<close> of its own engine, the service holds the engine it held or the new one,
  a call that returns leaves the new engine and the model in the fields, and \<open>isLoading\<close>
  is false.
\<close>

definition loads :: "load_env \<Rightarrow> ModelConfig \<Rightarrow> WebLLMService
    \<Rightarrow> exn option \<times> effect list \<times> WebLLMService \<Rightarrow> bool" where
  "loads env m svc0 res \<longleftrightarrow>
     engine_calls (fst (snd res)) =
       (if constructorThrows env = None
        then [EngineCreate (newEngine env), EngineReload (newEngine env) (model_id m)]
        else [])
     \<and> (engine (snd (snd res)) = engine svc0 \<or> engine (snd (snd res)) = Some (newEngine env))
     \<and> (fst res = None \<longrightarrow>
          engine (snd (snd res)) = Some (newEngine env)
          \<and> currentModel (snd (snd res)) = Some (model_id m))
     \<and> \<not> isLoading (snd (snd res))"

section \<open>Chat view (components/ChatInterface.tsx, handleSendMessage)\<close>

text \<open>\<open>messages.slice(-n)\<close>: the last \<open>n\<close> elements.\<close>

definition slice_last :: "nat \<Rightarrow> 'a list \<Rightarrow> 'a list" where
  "slice_last n xs = drop (length xs - n) xs"

definition GPU_MEMORY_ERROR :: jsstring where
  "GPU_MEMORY_ERROR =
     [0x26A0, 0xFE0F] @ js '' **GPU Memory Error**'' @ [newline, newline] @
     js ''The GPU ran out of memory. This can happen with larger models or long conversations.'' @
     [newline, newline] @ js ''**To fix:**'' @ [newline] @
     js ''1. Click the back arrow ('' @ [0x2190] @ js '') to return to model selection'' @
     [newline] @ js ''2. Try a smaller model, or'' @ [newline] @
     js ''3. Clear your chat history and reload the same model''"

text \<open>
  The effect of the events of one generation on the store. For a token the \<open>onToken\<close>
  callback appends it to \<open>assistantContent\<close> and replaces the last message of the store;
  for a stop press \<open>handleStopGeneration\<close> calls \<open>setGenerating(false)\<close>.
\<close>

fun apply_events :: "ChatMessage \<Rightarrow> jsstring \<Rightarrow> gen_event list \<Rightarrow> ChatState \<Rightarrow> ChatState" where
  "apply_events assistantMessage assistantContent [] st = st"
| "apply_events assistantMessage assistantContent (Token token # evs) st =
     apply_events assistantMessage (assistantContent @ token) evs
       (st\<lparr>messages := butlast (messages st) @
                          [assistantMessage\<lparr>content := assistantContent @ token\<rparr>]\<rparr>)"
| "apply_events assistantMessage assistantContent (Stopped # evs) st =
     apply_events assistantMessage assistantContent evs (setGenerating False st)"

text \<open>
  \<open>handleSendMessage(content)\<close>. \<open>st\<close> is the store, whose fields the component reads,
  \<open>svc\<close> the service, \<open>now\<close> the clock. The result is the exception that rejects the
  promise, if any, the store, the service, and the calls made to the engine.
  \<open>sanitizeInput\<close> runs before the \<open>try\<close> block: its exception leaves the function.
\<close>

definition handleSendMessage ::
  "gen_env \<Rightarrow> nat \<Rightarrow> jsstring \<Rightarrow> ChatState \<Rightarrow> WebLLMService
     \<Rightarrow> exn option \<times> ChatState \<times> WebLLMService \<times> effect list" where
  "handleSendMessage env now input st svc =
     (if selectedModel st = None \<or> \<not> isModelLoaded svc then (None, st, svc, [])
      else
        case sanitizeInput (purify env) input of
          Inl e \<Rightarrow> (Some e, st, svc, [])
        | Inr s \<Rightarrow>
            (let cleaned = take 4000 s;
                 userMessage = \<lparr>role = User, content = cleaned, msg_timestamp = now\<rparr>;
                 st1 = setGenerating True (addMessage now userMessage st);
                 maxContextMessages = (if contextTokenCount st > 2048 then 6 else 10);
                 contextMessages = slice_last maxContextMessages (messages st);
                 allMessages = contextMessages @ [userMessage];
                 assistantMessage = \<lparr>role = Assistant, content = [], msg_timestamp = now\<rparr>;
                 st2 = addMessage now assistantMessage st1
             in (case generateResponse env allMessages None (Some (systemInstruction st)) svc of
                   (result, evs, eff, svc') \<Rightarrow>
                     (let st3 = apply_events assistantMessage [] evs st2;
                          st4 = (case result of
                                   Inr _ \<Rightarrow> st3
                                 | Inl e \<Rightarrow>
                                     (let errorMsg = message_or (js ''Failed to generate response'') e
                                      in if includes_str errorMsg (js ''GPU_DEVICE_LOST'')
                                         then addMessage now
                                                \<lparr>role = Assistant, content = GPU_MEMORY_ERROR,
                                                 msg_timestamp = now\<rparr> st3
                                         else addMessage now
                                                \<lparr>role = Assistant,
                                                 content = js ''Error: '' @ errorMsg,
                                                 msg_timestamp = now\<rparr> st3))
                      in (None, setGenerating False st4, svc', eff)))))"

text \<open>\<open>handleStopGeneration\<close> outside a running generation.\<close>

definition handleStopGeneration :: "ChatState \<Rightarrow> WebLLMService \<Rightarrow> ChatState \<times> WebLLMService" where
  "handleStopGeneration st svc = (setGenerating False st, cancelGeneration svc)"

section \<open>Concrete inputs\<close>

definition sample_call :: "nat \<Rightarrow> log_call" where
  "sample_call n =
     \<lparr>call_now = n, call_url = js ''/model.bin'', call_allowed = True,
      call_reason = Some (js ''Local request''), call_method = None\<rparr>"

text \<open>A browser in which every API is present and nothing is blocked.\<close>

definition open_platform :: platform where
  "open_platform =
     \<lparr>localStorageBlocked = False, sessionStorageBlocked = False, hasCaches = True,
      cachesKeysRejects = False, hasIndexedDB = True, hasDatabases = True,
      databasesRejects = False, deleteDatabaseThrows = False, hasCrypto = True,
      randomByte = (\<lambda>i j. 0), hasGc = False, gcThrows = False\<rparr>"

definition empty_browser :: browser where
  "empty_browser =
     \<lparr>localStorage = Map.empty, sessionStorage = Map.empty, cacheNames = [],
      databases = [], rootClasses = {}\<rparr>"

definition hello_message :: ChatMessage where
  "hello_message = \<lparr>role = User, content = js ''hello'', msg_timestamp = 0\<rparr>"

text \<open>A message whose content has 65537 code units.\<close>

definition long_message :: ChatMessage where
  "long_message = \<lparr>role = Assistant, content = replicate 65537 97, msg_timestamp = 0\<rparr>"

definition llama :: ModelConfig where
  "llama =
     \<lparr>model_id = js ''Llama-3.2-1B-Instruct-q4f16_1-MLC'', model_name = js ''Llama 3.2 1B'',
      model_size = js ''879MB'', model_ram = 6, model_gpu = Optional,
      model_description = js ''Flexible and fast, great for mobile devices'',
      model_category = Tiny\<rparr>"

definition qwen :: ModelConfig where
  "qwen =
     \<lparr>model_id = js ''Qwen3-0.6B-q4f16_1-MLC'', model_name = js ''Qwen3 0.6B'',
      model_size = js ''600MB'', model_ram = 4, model_gpu = Optional,
      model_description = js ''Latest ultra-compact Qwen model, excellent efficiency'',
      model_category = Tiny\<rparr>"

definition smollm :: ModelConfig where
  "smollm =
     \<lparr>model_id = js ''SmolLM2-360M-Instruct-q4f16_1-MLC'', model_name = js ''SmolLM2 360M'',
      model_size = js ''350MB'', model_ram = 2, model_gpu = Optional,
      model_description = js ''Extremely lightweight model for very old devices'',
      model_category = Tiny\<rparr>"

text \<open>The store and the service after \<open>llama\<close> has been selected and loaded as engine 0.\<close>

definition ready_store :: ChatState where
  "ready_store = setSelectedModel llama (initial_state True)"

definition ready_service :: WebLLMService where
  "ready_service =
     new_service\<lparr>engine := Some 0, currentModel := Some (model_id llama),
                 loadingProgress := 100, loadingStatus := js ''Model loaded successfully''\<rparr>"

text \<open>A load on a desktop browser with WebGPU that succeeds and returns engine 1.\<close>

definition desktop_load :: load_env where
  "desktop_load =
     \<lparr>isIOS = False, isMobile = False, gpuInNavigator = True, adapter = AdapterFound,
      newEngine = 1, constructorThrows = None, reports = [], reloadThrows = None\<rparr>"

text \<open>
  Two calls of \<open>initializeModel\<close> that have not run yet: one for \<open>qwen\<close>, whose
  constructor returns engine 1, and one for \<open>smollm\<close>, whose constructor returns
  engine 2. Both loads succeed.
\<close>

definition second_load :: load_env where
  "second_load = desktop_load\<lparr>newEngine := 2\<rparr>"

definition two_calls :: "init_call list" where
  "two_calls =
     [\<lparr>call_env = desktop_load, call_model = qwen, call_pc = AtStart\<rparr>,
      \<lparr>call_env = second_load, call_model = smollm, call_pc = AtStart\<rparr>]"

text \<open>
  A generation in which the user presses stop after the first chunk and the engine
  delivers one more chunk. Plain text passes \<open>DOMPurify.sanitize\<close> unchanged; the message
  of the \<open>TypeError\<close> is the one of V8.
\<close>

definition null_signal :: jsstring where
  "null_signal = js ''Cannot read properties of null (reading '' @ [39] @ js ''signal'' @ [39] @ js '')''"

definition stopped_generation :: gen_env where
  "stopped_generation =
     \<lparr>purify = (\<lambda>s. s), createThrows = None,
      stream = [Chunk (Some (js ''Hel'')), Stop, Chunk (Some (js ''lo''))],
      nullSignalMessage = null_signal\<rparr>"

chapter \<open>Properties\<close>

section \<open>Properties of the audit log\<close>

lemma log_one_entry: "log_one rs c =
    (if length rs < MAX_ENTRIES then rs @ [entry_of c] else tl (rs @ [entry_of c]))"
  by (auto simp: log_one_def logRequest_def entry_of_def Let_def)

lemma foldl_log_one_window:
  "length rs \<le> MAX_ENTRIES \<Longrightarrow>
   foldl log_one rs cs =
     drop (length rs + length cs - MAX_ENTRIES) (rs @ map entry_of cs)"
proof (induction cs arbitrary: rs)
  case Nil
  then show ?case by simp
next
  case (Cons c cs)
  show ?case
  proof (cases "length rs < MAX_ENTRIES")
    case True
    then have "length (rs @ [entry_of c]) \<le> MAX_ENTRIES" by simp
    from Cons.IH [OF this] True show ?thesis
      by (simp add: log_one_entry)
  next
    case False
    with Cons.prems have full: "length rs = MAX_ENTRIES" by simp
    then obtain r rs' where rs: "rs = r # rs'"
      by (cases rs) (auto simp: MAX_ENTRIES_def)
    have step: "log_one rs c = rs' @ [entry_of c]"
      using full by (simp add: log_one_entry rs)
    have len: "length (rs' @ [entry_of c]) = MAX_ENTRIES"
      using full by (simp add: rs)
    then have "foldl log_one (rs' @ [entry_of c]) cs =
        drop (length cs) ((rs' @ [entry_of c]) @ map entry_of cs)"
      using Cons.IH [of "rs' @ [entry_of c]"] by simp
    moreover have "length cs - length rs' = Suc (length cs) - MAX_ENTRIES"
      using full by (simp add: rs)
    ultimately show ?thesis
      using full by (simp add: step) (simp add: rs)
  qed
qed

text \<open>
  C3. For every sequence of \<open>logRequest\<close> calls the array never holds more than
  \<open>MAX_ENTRIES = 100\<close> entries, it holds exactly the most recent entries in call order,
  and a call on a full array drops the oldest entry and appends the new one.
\<close>

theorem audit_log_bounded_fifo:
  "length (log_calls cs) \<le> 100
   \<and> log_calls cs = drop (length cs - 100) (map entry_of cs)
   \<and> (length rs = 100 \<longrightarrow> log_one rs c = tl rs @ [entry_of c])"
proof -
  have w: "log_calls cs = drop (length cs - MAX_ENTRIES) (map entry_of cs)"
    unfolding log_calls_def using foldl_log_one_window [of "[]" cs] by simp
  have "length (log_calls cs) \<le> MAX_ENTRIES"
    unfolding w by simp
  moreover have "length rs = MAX_ENTRIES \<Longrightarrow> log_one rs c = tl rs @ [entry_of c]"
    by (cases rs) (simp_all add: log_one_entry MAX_ENTRIES_def)
  ultimately show ?thesis
    using w by (simp add: MAX_ENTRIES_def)
qed

theorem audit_log_bounded_fifo_witness:
  "length (replicate 100 (entry_of (sample_call 0))) = 100
   \<and> log_one (replicate 100 (entry_of (sample_call 0))) (sample_call 1)
       = replicate 99 (entry_of (sample_call 0)) @ [entry_of (sample_call 1)]"
  using audit_log_bounded_fifo
    [of "[]" "replicate 100 (entry_of (sample_call 0))" "sample_call 1"]
  by simp


section \<open>Properties of the network gate\<close>

lemma gate_allows_matching_host:
  assumes "parse u = Some h" and "isAllowed h \<or> isLocalRequest page h"
  shows "wrappedFetch parse page now u m requests =
           (Proceeds,
            logRequest now u True
              (Some (if isLocalRequest page h then js ''Local request''
                     else js ''Whitelisted domain''))
              (Some (request_method m)) requests)"
  using assms by (auto simp: wrappedFetch_def gate_try_def Let_def)

lemma gate_rejects_absolute_other_host:
  assumes "parse u = Some h" and "\<not> isAllowed h" and "\<not> isLocalRequest page h"
    and "\<not> startsWith u (js ''/'')" and "\<not> startsWith u (js ''./'')"
  shows "wrappedFetch parse page now u m requests =
           (Throws (js ''Network request blocked''),
            logRequest now u False (Some (js ''Invalid or blocked URL''))
              (Some (request_method m))
              (logRequest now u False (Some (js ''Domain not in whitelist''))
                 (Some (request_method m)) requests))"
  using assms by (simp add: wrappedFetch_def gate_try_def Let_def)

lemma evil_host_not_listed:
  "\<not> isAllowed (js ''evil.example.com'')"
  "\<not> isLocalRequest (js ''oblivai.com'') (js ''evil.example.com'')"
  by (simp_all add: isAllowed_def isLocalRequest_def allowedDomains_def js_def endsWith_def)

lemma parse_evil:
  "URL_hostname (js ''oblivai.com'') (js ''//evil.example.com/x'') = Some (js ''evil.example.com'')"
  "URL_hostname (js ''oblivai.com'') (js ''https://evil.example.com/x'') = Some (js ''evil.example.com'')"
  by (simp_all add: URL_hostname_def host_of_authority_def host_char_def ascii_lower_def js_def)

text \<open>
  C1. The wrapped \<open>fetch\<close> lets a request through when the host matches and rejects every other
  request. On the code, the scheme-relative reference \<open>//evil.example.com/x\<close>, whose host
  matches nothing, is first logged as blocked and then, because the \<open>catch\<close> clause also
  receives the wrapper's own exception and the string starts with \<open>/\<close>, logged as allowed and
  passed on to the original \<open>fetch\<close>.
\<close>

theorem gate_passes_scheme_relative_foreign_host:
  "wrappedFetch (URL_hostname (js ''oblivai.com'')) (js ''oblivai.com'') now
       (js ''//evil.example.com/x'') None []
     = (Proceeds,
        [\<lparr>url = js ''//evil.example.com/x'', timestamp = now, blocked = True,
          reason = Some (js ''Domain not in whitelist''), http_method = Some (js ''GET'')\<rparr>,
         \<lparr>url = js ''//evil.example.com/x'', timestamp = now, blocked = False,
          reason = Some (js ''Local resource''), http_method = Some (js ''GET'')\<rparr>])"
proof -
  have s: "startsWith (js ''//evil.example.com/x'') (js ''/'')"
    by (simp add: js_def)
  show ?thesis
    unfolding wrappedFetch_def gate_try_def Let_def parse_evil
    using evil_host_not_listed s
    by (simp add: logRequest_def request_method_def MAX_ENTRIES_def Let_def)
qed

text \<open>
  C4. Requesting \<open>https://evil.example.com/x\<close> throws and records exactly one blocked
  entry. On the code, from a page on \<open>oblivai.com\<close>, the request throws and two blocked
  entries are recorded: the wrapper's own exception is caught by the \<open>catch\<close> clause of the
  same \<open>try\<close>, which logs the request a second time.
\<close>

theorem gate_logs_blocked_request_twice:
  "wrappedFetch (URL_hostname (js ''oblivai.com'')) (js ''oblivai.com'') now
       (js ''https://evil.example.com/x'') None []
     = (Throws (js ''Network request blocked''),
        [\<lparr>url = js ''https://evil.example.com/x'', timestamp = now, blocked = True,
          reason = Some (js ''Domain not in whitelist''), http_method = Some (js ''GET'')\<rparr>,
         \<lparr>url = js ''https://evil.example.com/x'', timestamp = now, blocked = True,
          reason = Some (js ''Invalid or blocked URL''), http_method = Some (js ''GET'')\<rparr>])"
proof -
  have s: "\<not> startsWith (js ''https://evil.example.com/x'') (js ''/'')"
          "\<not> startsWith (js ''https://evil.example.com/x'') (js ''./'')"
    by (simp_all add: js_def)
  show ?thesis
    unfolding wrappedFetch_def gate_try_def Let_def parse_evil
    using evil_host_not_listed s
    by (simp add: logRequest_def request_method_def MAX_ENTRIES_def Let_def)
qed

section \<open>Properties of the storage scrub\<close>

lemma try_catch_skip [simp]: "fst (try_catch a (\<lambda>_. skip) w) = None"
  by (simp add: try_catch_def skip_def split: prod.splits option.splits)

lemma getRandomValues_ok: "n \<le> 65536 \<Longrightarrow> getRandomValues n = skip"
  by (simp add: getRandomValues_def)

lemma seq_skip [simp]: "seq skip a = a" "seq a skip = a"
  by (auto simp: seq_def skip_def fun_eq_iff split: prod.splits option.splits)

lemma repeat_skip [simp]: "repeat n skip = skip"
  by (induction n) simp_all

lemma seq_ok: "fst (a w) = None \<Longrightarrow> (\<And>w'. fst (b w') = None) \<Longrightarrow> fst (seq a b w) = None"
  by (auto simp: seq_def split: prod.splits option.splits)

lemma skip_ok [simp]: "fst (skip w) = None"
  by (simp add: skip_def)

lemma clearAllHistory_scrub_ok: "fst (clearAllHistory_scrub pf w) = None"
  unfolding clearAllHistory_scrub_def by (intro seq_ok) simp_all

text \<open>
  C9. No storage-scrub operation of the security manager throws to its caller, whatever
  the platform blocks, lacks or rejects: \<open>secureMemoryWipe\<close>,
  \<open>clearUserDataFromIndexedDB\<close>, \<open>totalMemoryWipe\<close> and the \<open>beforeunload\<close> listener all
  complete.
\<close>

theorem storage_scrub_never_throws:
  "fst (secureMemoryWipe pf w) = None
   \<and> fst (clearUserDataFromIndexedDB pf w) = None
   \<and> fst (totalMemoryWipe pf w) = None
   \<and> fst (beforeunload_scrub pf w) = None"
proof -
  have 1: "fst (secureMemoryWipe pf w') = None" for w'
    by (simp add: secureMemoryWipe_def)
  have 2: "fst (clearUserDataFromIndexedDB pf w) = None"
    by (simp add: clearUserDataFromIndexedDB_def)
  have 3: "fst (totalMemoryWipe pf w) = None"
    unfolding totalMemoryWipe_def
    by (rule seq_ok [OF 1]) (simp add: getRandomValues_ok)
  have 4: "fst (beforeunload_scrub pf w) = None"
    by (simp add: beforeunload_scrub_def)
  from 1 2 3 4 show ?thesis by simp
qed

section \<open>Properties of the chat state container\<close>

lemma clearMessages_resets:
  "messages (clearMessages st) = [] \<and> contextTokenCount (clearMessages st) = 0
   \<and> \<not> showContextWarning (clearMessages st)"
  by (simp add: clearMessages_def)

lemma overwrite_messages_ok:
  "hasCrypto pf \<Longrightarrow> \<forall>m \<in> set ms. length (content m) \<le> 65536 \<Longrightarrow>
   fst (overwrite_messages pf i ms) = None"
  by (induction ms arbitrary: i) (simp_all add: Let_def case_prod_beta)

lemma clearAllHistory_resets_short_history:
  assumes "hasCrypto pf" and "\<forall>m \<in> set (messages st). length (content m) \<le> 65536"
  shows "fst (clearAllHistory pf st w) = None
     \<and> messages (fst (snd (clearAllHistory pf st w))) = []
     \<and> contextTokenCount (fst (snd (clearAllHistory pf st w))) = 0
     \<and> \<not> showContextWarning (fst (snd (clearAllHistory pf st w)))"
proof -
  from overwrite_messages_ok [OF assms, of 0]
  obtain ms where o: "overwrite_messages pf 0 (messages st) = (None, ms)"
    by (cases "overwrite_messages pf 0 (messages st)") auto
  show ?thesis
    using clearAllHistory_scrub_ok [of pf w]
    by (simp add: clearAllHistory_def o Let_def case_prod_beta)
qed

lemma nothing_written_refl [simp]: "nothing_written w w"
  by (simp add: nothing_written_def)

lemma nothing_written_trans:
  "nothing_written w w' \<Longrightarrow> nothing_written w' w'' \<Longrightarrow> nothing_written w w''"
  unfolding nothing_written_def by blast

lemma only_theme_written_refl [simp]: "only_theme_written w w"
  by (simp add: only_theme_written_def)

lemma only_theme_written_trans:
  "only_theme_written w w' \<Longrightarrow> only_theme_written w' w'' \<Longrightarrow> only_theme_written w w''"
  unfolding only_theme_written_def by blast

lemma nothing_written_imp: "nothing_written w w' \<Longrightarrow> only_theme_written w w'"
  unfolding nothing_written_def only_theme_written_def by blast

lemma shrinks_skip [simp]: "shrinks skip"
  by (simp add: shrinks_def skip_def)

lemma shrinks_throw [simp]: "shrinks (throw e)"
  by (simp add: shrinks_def throw_def)

lemma shrinks_seq:
  assumes "shrinks a" and "shrinks b"
  shows "shrinks (seq a b)"
  unfolding shrinks_def
proof
  fix w
  obtain e w1 where a: "a w = (e, w1)" by (cases "a w")
  from assms(1) a have 1: "nothing_written w w1" by (auto simp: shrinks_def dest: spec [of _ w])
  from assms(2) have 2: "nothing_written w1 (snd (b w1))" by (simp add: shrinks_def)
  show "nothing_written w (snd (seq a b w))"
    using 1 nothing_written_trans [OF 1 2] by (cases e) (simp_all add: seq_def a)
qed

lemma shrinks_try_catch:
  assumes "shrinks a" and "\<And>e. shrinks (h e)"
  shows "shrinks (try_catch a h)"
  unfolding shrinks_def
proof
  fix w
  obtain e w1 where a: "a w = (e, w1)" by (cases "a w")
  from assms(1) a have 1: "nothing_written w w1" by (auto simp: shrinks_def dest: spec [of _ w])
  have 2: "nothing_written w1 (snd (h x w1))" for x
    using assms(2) [of x] by (simp add: shrinks_def)
  show "nothing_written w (snd (try_catch a h w))"
    using 1 nothing_written_trans [OF 1 2] by (cases e) (simp_all add: try_catch_def a)
qed

lemma shrinks_for_each: "(\<And>x. shrinks (f x)) \<Longrightarrow> shrinks (for_each f xs)"
  by (induction xs) (simp_all add: shrinks_seq)

lemma shrinks_prims [simp]:
  "shrinks (localStorage_clear pf)" "shrinks (sessionStorage_clear pf)"
  "shrinks (deleteDatabase pf n)" "shrinks (caches_delete n)"
  by (auto simp: shrinks_def localStorage_clear_def sessionStorage_clear_def deleteDatabase_def
        caches_delete_def throw_def nothing_written_def)

lemma shrinks_delete_unlisted [simp]: "shrinks (delete_unlisted pf keep names)"
  unfolding delete_unlisted_def by (rule shrinks_for_each) simp

lemma shrinks_delete_snapshot [simp]:
  "shrinks (\<lambda>w. delete_unlisted pf keep (databases w) w)"
  using shrinks_delete_unlisted by (simp add: shrinks_def)

lemma shrinks_cache_snapshot:
  assumes "\<And>x. shrinks (f x)"
  shows "shrinks (\<lambda>w. for_each f (cacheNames w) w)"
proof -
  have "shrinks (for_each f xs)" for xs
    by (rule shrinks_for_each) (rule assms)
  then show ?thesis by (simp add: shrinks_def)
qed

lemma shrinks_storage_clear [simp]:
  "shrinks (try_catch (seq (localStorage_clear pf) (sessionStorage_clear pf)) (\<lambda>_. skip))"
  by (rule shrinks_try_catch, rule shrinks_seq) simp_all

lemma shrinks_scrub_caches:
  "shrinks (try_catch
              (if cachesKeysRejects pf then throw SecurityError
               else (\<lambda>w. for_each (\<lambda>cacheName.
                       if \<not> includes_str cacheName (js ''mlc'') \<and>
                          \<not> includes_str cacheName (js ''webllm'') \<and>
                          \<not> includes_str cacheName (js ''oblivai-static'')
                       then caches_delete cacheName else skip) (cacheNames w) w))
              (\<lambda>_. skip))"
proof (rule shrinks_try_catch)
  show "shrinks (if cachesKeysRejects pf then throw SecurityError
               else (\<lambda>w. for_each (\<lambda>cacheName.
                       if \<not> includes_str cacheName (js ''mlc'') \<and>
                          \<not> includes_str cacheName (js ''webllm'') \<and>
                          \<not> includes_str cacheName (js ''oblivai-static'')
                       then caches_delete cacheName else skip) (cacheNames w) w))"
    by (cases "cachesKeysRejects pf") (simp_all add: shrinks_cache_snapshot)
qed simp

lemma shrinks_scrub_databases:
  "shrinks (try_catch
              (if hasDatabases pf then
                 try_catch
                   (if databasesRejects pf then throw (JsError (js ''UnknownError'') [])
                    else (\<lambda>w. delete_unlisted pf preserveDatabases (databases w) w))
                   (\<lambda>_. skip)
               else skip)
              (\<lambda>_. skip))"
proof (rule shrinks_try_catch)
  have "shrinks (try_catch
                   (if databasesRejects pf then throw (JsError (js ''UnknownError'') [])
                    else (\<lambda>w. delete_unlisted pf preserveDatabases (databases w) w))
                   (\<lambda>_. skip))"
    by (rule shrinks_try_catch) simp_all
  then show "shrinks (if hasDatabases pf then
                 try_catch
                   (if databasesRejects pf then throw (JsError (js ''UnknownError'') [])
                    else (\<lambda>w. delete_unlisted pf preserveDatabases (databases w) w))
                   (\<lambda>_. skip)
               else skip)"
    by simp
qed simp

lemma shrinks_scrub_gc:
  "shrinks (if hasGc pf then
            try_catch (if gcThrows pf then throw (Error []) else skip) (\<lambda>_. skip)
          else skip)"
proof -
  have "shrinks (try_catch (if gcThrows pf then throw (Error []) else skip) (\<lambda>_. skip))"
    by (rule shrinks_try_catch) simp_all
  then show ?thesis by simp
qed

lemma shrinks_scrub: "shrinks (clearAllHistory_scrub pf)"
  unfolding clearAllHistory_scrub_def
proof (intro shrinks_seq)
  show "shrinks (try_catch (seq (localStorage_clear pf) (sessionStorage_clear pf)) (\<lambda>_. skip))"
    by simp
  show "shrinks (if hasCaches pf then
            try_catch
              (if cachesKeysRejects pf then throw SecurityError
               else (\<lambda>w. for_each (\<lambda>cacheName.
                       if \<not> includes_str cacheName (js ''mlc'') \<and>
                          \<not> includes_str cacheName (js ''webllm'') \<and>
                          \<not> includes_str cacheName (js ''oblivai-static'')
                       then caches_delete cacheName else skip) (cacheNames w) w))
              (\<lambda>_. skip)
          else skip)"
    using shrinks_scrub_caches [of pf] by simp
  show "shrinks (if hasIndexedDB pf then
            try_catch
              (if hasDatabases pf then
                 try_catch
                   (if databasesRejects pf then throw (JsError (js ''UnknownError'') [])
                    else (\<lambda>w. delete_unlisted pf preserveDatabases (databases w) w))
                   (\<lambda>_. skip)
               else skip)
              (\<lambda>_. skip)
          else skip)"
    using shrinks_scrub_databases [of pf] by simp
  show "shrinks (if hasGc pf then
            try_catch (if gcThrows pf then throw (Error []) else skip) (\<lambda>_. skip)
          else skip)"
    by (rule shrinks_scrub_gc)
qed

lemma clearAllHistory_storage: "nothing_written w (snd (snd (clearAllHistory pf st w)))"
proof -
  obtain e ms where o: "overwrite_messages pf 0 (messages st) = (e, ms)"
    by (cases "overwrite_messages pf 0 (messages st)")
  have "nothing_written w (snd (clearAllHistory_scrub pf w))"
    using shrinks_scrub [of pf] by (simp add: shrinks_def)
  then show ?thesis
    by (cases e) (simp_all add: clearAllHistory_def o Let_def case_prod_beta)
qed

lemma toggleDarkMode_storage: "only_theme_written w (snd (toggleDarkMode pf st w))"
  by (auto simp: toggleDarkMode_def Let_def try_catch_def localStorage_setItem_def throw_def
        skip_def only_theme_written_def)

lemma run_op_storage: "only_theme_written w (snd (run_op pf (st, w) op))"
  by (cases op) (simp_all add: clearAllHistory_storage nothing_written_imp toggleDarkMode_storage)

lemma run_op_message_storage:
  "is_message_op op \<Longrightarrow> nothing_written w (snd (run_op pf (st, w) op))"
  by (cases op) (simp_all add: clearAllHistory_storage is_message_op_def)

lemma run_op_storageEnabled:
  "\<not> storageEnabled st \<Longrightarrow> \<not> storageEnabled (fst (run_op pf (st, w) op))"
  by (cases op)
     (simp_all add: addMessage_def clearMessages_def clearAllHistory_def setSelectedModel_def
        setGenerating_def setModelLoadingProgress_def toggleDarkMode_def setAutoDeleteChats_def
        setSystemInstruction_def enableStorage_def disableStorage_def
        updateContextTokenCount_def dismissContextWarning_def Let_def case_prod_beta
        split: prod.splits option.splits)

lemma run_ops_invariants:
  "only_theme_written w (snd (run_ops pf ops (st, w)))
   \<and> (\<not> storageEnabled st \<longrightarrow> \<not> storageEnabled (fst (run_ops pf ops (st, w))))
   \<and> (list_all is_message_op ops \<longrightarrow> nothing_written w (snd (run_ops pf ops (st, w))))"
proof (induction ops arbitrary: st w)
  case Nil
  show ?case by (simp add: run_ops_def)
next
  case (Cons op ops)
  obtain st1 w1 where s: "run_op pf (st, w) op = (st1, w1)"
    by (cases "run_op pf (st, w) op")
  have r: "run_ops pf (op # ops) (st, w) = run_ops pf ops (st1, w1)"
    by (simp add: run_ops_def s)
  from run_op_storage [of w pf st op] s have 1: "only_theme_written w w1" by simp
  from run_op_storageEnabled [of st pf w op] s
  have 2: "\<not> storageEnabled st \<Longrightarrow> \<not> storageEnabled st1" by simp
  from run_op_message_storage [of op w pf st] s
  have 3: "is_message_op op \<Longrightarrow> nothing_written w w1" by simp
  show ?case
    unfolding r using Cons.IH [of w1 st1] 1 2 3
    by (auto intro: only_theme_written_trans nothing_written_trans)
qed


text \<open>
  C2. No operation of the container writes message content to durable storage:
  \<open>enableStorage\<close> leaves \<open>storageEnabled\<close> false, the flag is false after every sequence of
  operations on the store as it is created, every sequence of operations leaves in
  storage only what was there before and the theme preference, and a sequence of
  \<open>addMessage\<close>, \<open>clearMessages\<close> and \<open>clearAllHistory\<close> calls writes nothing at all.
\<close>

theorem chat_content_never_stored:
  "\<not> storageEnabled (enableStorage st)
   \<and> \<not> storageEnabled (fst (run_ops pf ops (initial_state dark, w)))
   \<and> only_theme_written w (snd (run_ops pf ops (st, w)))
   \<and> (list_all is_message_op ops \<longrightarrow> nothing_written w (snd (run_ops pf ops (st, w))))"
  using run_ops_invariants [of w pf ops st] run_ops_invariants [of w pf ops "initial_state dark"]
  by (simp add: enableStorage_def initial_state_def)

theorem chat_content_never_stored_witness:
  "list_all is_message_op [AddMessage 0 hello_message, ClearAllHistory]
   \<and> nothing_written empty_browser
        (snd (run_ops open_platform [AddMessage 0 hello_message, ClearAllHistory]
                (initial_state True, empty_browser)))
   \<and> \<not> storageEnabled
          (fst (run_ops open_platform [AddMessage 0 hello_message, ClearAllHistory]
                  (initial_state True, empty_browser)))"
  using chat_content_never_stored
    [of "initial_state True" open_platform "[AddMessage 0 hello_message, ClearAllHistory]"
        True empty_browser]
  by (simp add: is_message_op_def)

text \<open>
  C7. Clearing the history leaves the message list empty whatever it held before. On the
  code \<open>clearMessages\<close> does (\<open>clearMessages_resets\<close>), and \<open>clearAllHistory\<close> does while
  every message has at most 65536 code units (\<open>clearAllHistory_resets_short_history\<close>).
  For a longer message \<open>crypto.getRandomValues\<close> throws in the overwrite loop, before
  the store is reset: the call ends with the exception and the list is still there.
\<close>

theorem clearAllHistory_keeps_oversize_history:
  "clearAllHistory open_platform (st\<lparr>messages := [long_message]\<rparr>) w
     = (Some QuotaExceededError, st\<lparr>messages := [long_message]\<rparr>, w)"
  by (simp add: clearAllHistory_def open_platform_def long_message_def Let_def)

section \<open>Properties of input sanitisation\<close>

lemma replace_all_subset: "set (replace_all rx rep prev s) \<subseteq> set rep \<union> set s"
proof (induction rx rep prev s rule: replace_all.induct)
  case (1 rx rep prev)
  then show ?case by (cases "rx_match rx prev []") simp_all
next
  case (2 rx rep prev c cs)
  show ?case
  proof (cases "rx_match rx prev (c # cs)")
    case None
    with 2(1) show ?thesis by auto
  next
    case (Some n)
    show ?thesis
    proof (cases n)
      case 0
      with Some 2(2) show ?thesis by auto
    next
      case (Suc m)
      from 2(3) [OF Some Suc]
      have "set (replace_all rx rep (char_before (Some c) cs m) (drop m cs))
              \<subseteq> set rep \<union> set (drop m cs)" .
      moreover have "set (drop m cs) \<subseteq> set cs" by (rule set_drop_subset)
      ultimately show ?thesis using Some Suc by auto
    qed
  qed
qed

lemma trim_subset: "set (trim s) \<subseteq> set s"
proof -
  have "set (dropWhile is_space (rev (dropWhile is_space s))) \<subseteq> set (dropWhile is_space s)"
    using set_dropWhileD by fastforce
  moreover have "set (dropWhile is_space s) \<subseteq> set s"
    using set_dropWhileD by fastforce
  ultimately show ?thesis by (auto simp: trim_def)
qed

lemma space_not_control: "\<forall>c \<in> set (js '' ''). \<not> is_control c"
  by (simp add: js_def is_control_def)

lemma sanitizeInput_long:
  "length input > 10000 \<Longrightarrow> sanitizeInput pur input = Inl (Error (js ''Input too long''))"
  by (simp add: sanitizeInput_def)

lemma sanitizeInput_short:
  assumes "length input \<le> 10000"
  shows "\<exists>out. sanitizeInput pur input = Inr out \<and> (\<forall>c \<in> set out. \<not> is_control c)"
proof -
  define mid where "mid = filter (\<lambda>c. \<not> is_control c)
      (foldl (\<lambda>s pattern. replace_all pattern (js ''[SECURITY_BLOCKED]'') None s)
         (pur input) (sqlPatterns @ xssPatterns))"
  have eq: "sanitizeInput pur input =
      Inr (trim (replace_all [Rep Space 10 None] (js '' '') None mid))"
    using assms by (simp add: sanitizeInput_def Let_def mid_def)
  have m: "\<forall>c \<in> set mid. \<not> is_control c" by (simp add: mid_def)
  have "set (trim (replace_all [Rep Space 10 None] (js '' '') None mid))
          \<subseteq> set (js '' '') \<union> set mid"
    using trim_subset replace_all_subset by (rule subset_trans)
  with m space_not_control
  have "\<forall>c \<in> set (trim (replace_all [Rep Space 10 None] (js '' '') None mid)). \<not> is_control c"
    by blast
  with eq show ?thesis by blast
qed

lemma sanitize_hello: "sanitizeInput (\<lambda>s. s) (js ''hello'') = Inr (js ''hello'')"
  by code_simp

text \<open>
  C10. \<open>sanitizeInput\<close> throws for every input of more than 10000 code units; for every
  other input it returns a string without control characters, whatever
  \<open>DOMPurify.sanitize\<close> returns; and \<open>handleSendMessage\<close>, with a model selected and
  loaded, throws that error for an over-long input and leaves store and service as they
  were, because it calls \<open>sanitizeInput\<close> on the raw input before it truncates.
\<close>

theorem sanitizeInput_length_and_control:
  "(length input > 10000 \<longrightarrow> sanitizeInput pur input = Inl (Error (js ''Input too long'')))
   \<and> (length input \<le> 10000 \<longrightarrow>
        (\<exists>out. sanitizeInput pur input = Inr out \<and> (\<forall>c \<in> set out. \<not> is_control c)))
   \<and> (selectedModel st \<noteq> None \<and> engine svc \<noteq> None \<and> length input > 10000 \<longrightarrow>
        handleSendMessage env now input st svc
          = (Some (Error (js ''Input too long'')), st, svc, []))"
  using sanitizeInput_long [of input pur] sanitizeInput_long [of input "purify env"]
    sanitizeInput_short [of input pur]
  by (auto simp: handleSendMessage_def isModelLoaded_def)

theorem sanitizeInput_length_and_control_witness:
  "length (replicate 10001 (97 :: 16 word)) > 10000
   \<and> sanitizeInput (\<lambda>s. s) (replicate 10001 97) = Inl (Error (js ''Input too long''))
   \<and> length (js ''hello'') \<le> 10000
   \<and> (\<exists>out. sanitizeInput (\<lambda>s. s) (js ''hello'') = Inr out
          \<and> (\<forall>c \<in> set out. \<not> is_control c))
   \<and> selectedModel ready_store \<noteq> None \<and> engine ready_service \<noteq> None
   \<and> handleSendMessage stopped_generation 0 (replicate 10001 97) ready_store ready_service
       = (Some (Error (js ''Input too long'')), ready_store, ready_service, [])"
  using sanitizeInput_length_and_control
      [of "replicate 10001 97" "\<lambda>s. s" ready_store ready_service stopped_generation 0]
    sanitizeInput_length_and_control
      [of "js ''hello''" "\<lambda>s. s" ready_store ready_service stopped_generation 0]
  by (simp add: ready_store_def ready_service_def setSelectedModel_def new_service_def js_def)

section \<open>Properties of the inference client\<close>

lemma model_ids_differ:
  "model_id llama \<noteq> model_id qwen" "model_id llama \<noteq> model_id smollm"
  "model_id qwen \<noteq> model_id smollm"
  by (simp_all add: llama_def qwen_def smollm_def js_def)

lemma desktop_fields:
  "isIOS desktop_load = False" "gpuInNavigator desktop_load = True"
  "constructorThrows desktop_load = None" "reloadThrows desktop_load = None"
  "reports desktop_load = []" "newEngine desktop_load = 1"
  "isIOS second_load = False" "gpuInNavigator second_load = True"
  "constructorThrows second_load = None" "reloadThrows second_load = None"
  "reports second_load = []" "newEngine second_load = 2"
  by (simp_all add: desktop_load_def second_load_def)

lemma ready_fields:
  "isLoading ready_service = False" "engine ready_service = Some 0"
  "currentModel ready_service = Some (model_id llama)"
  by (simp_all add: ready_service_def new_service_def)

lemma engine_calls_simps [simp]:
  "engine_calls [] = []"
  "engine_calls (OnProgress p s # ev) = engine_calls ev"
  "engine_calls (EngineUnload n # ev) = EngineUnload n # engine_calls ev"
  "engine_calls (EngineCreate n # ev) = EngineCreate n # engine_calls ev"
  "engine_calls (EngineReload n i # ev) = EngineReload n i # engine_calls ev"
  "engine_calls (ev @ ev') = engine_calls ev @ engine_calls ev'"
  by (simp_all add: engine_calls_def is_engine_call_def)

declare init_run.simps [simp del]

lemma callback_frame:
  "engine_calls (fst (initProgressCallback env acc r)) = engine_calls (fst acc)
   \<and> engine (snd (initProgressCallback env acc r)) = engine (snd acc)
   \<and> currentModel (snd (initProgressCallback env acc r)) = currentModel (snd acc)
   \<and> isLoading (snd (initProgressCallback env acc r)) = isLoading (snd acc)"
  by (simp add: initProgressCallback_def Let_def engine_calls_def is_engine_call_def
           split: option.splits)

lemma callbacks_frame:
  "engine_calls (fst (foldl (initProgressCallback env) acc rs)) = engine_calls (fst acc)
   \<and> engine (snd (foldl (initProgressCallback env) acc rs)) = engine (snd acc)
   \<and> currentModel (snd (foldl (initProgressCallback env) acc rs)) = currentModel (snd acc)
   \<and> isLoading (snd (foldl (initProgressCallback env) acc rs)) = isLoading (snd acc)"
  by (induction rs arbitrary: acc) (simp_all add: callback_frame)


lemma init_run_Finished [simp]: "init_run env m (Finished r) svc = (r, [], svc)"
  by (simp add: init_run.simps)

lemma init_run_unfold:
  "init_rank pc \<noteq> 0 \<Longrightarrow> init_run env m pc svc = run_from env m (init_step env m pc svc)"
  by (subst init_run.simps) (simp add: run_from_def)

lemma run_from_Finished [simp]: "run_from env m (Finished r, ev, svc) = (r, ev, svc)"
  by (simp add: run_from_def)

lemma run_from_fail_load:
  "run_from env m (fail_load env e ev svc) =
     (Some (Error (userFriendlyMessage env (message_or (js ''Unknown error'') e))),
      ev @ [OnProgress 0 (js ''Error loading model: '' @ message_or (js ''Unknown error'') e)],
      svc\<lparr>loadingStatus := js ''Error loading model: '' @ message_or (js ''Unknown error'') e,
           isLoading := False\<rparr>)"
  by (simp add: fail_load_def Let_def)

lemma run_from_finish_reload:
  "\<exists>r ev svc'. run_from env m (finish_reload env m svc) = (r, ev, svc')
      \<and> engine_calls ev = [] \<and> engine svc' = engine svc \<and> \<not> isLoading svc'
      \<and> (r = None \<longrightarrow> currentModel svc' = Some (model_id m))"
proof -
  obtain ev3 svc3 where f: "foldl (initProgressCallback env) ([], svc) (reports env) = (ev3, svc3)"
    by (cases "foldl (initProgressCallback env) ([], svc) (reports env)")
  from callbacks_frame [of env "([], svc)" "reports env"] f
  have fr: "engine_calls ev3 = []" "engine svc3 = engine svc"
    by simp_all
  show ?thesis
  proof (cases "reloadThrows env")
    case None
    then show ?thesis using fr by (simp add: finish_reload_def f)
  next
    case (Some e)
    then show ?thesis using fr by (simp add: finish_reload_def f run_from_fail_load)
  qed
qed

lemma run_from_create_engine:
  assumes "engine_calls ev0 = []"
  shows "loads env m svc (run_from env m (create_engine env m ev0 svc))"
proof (cases "constructorThrows env")
  case (Some e)
  then show ?thesis
    using assms by (simp add: create_engine_def Let_def run_from_fail_load loads_def)
next
  case None
  define status5 where "status5 = (if hasWebGPU env then js ''Initializing WebGPU engine...''
                     else if isIOS env then js ''Initializing WebGL engine...''
                     else js ''Creating ML engine...'')"
  define status10 where "status10 = (if hasWebGPU env then js ''Starting GPU-accelerated download...''
                              else js ''Starting model download...'')"
  define svc2 where "svc2 = svc\<lparr>loadingStatus := status5, engine := Some (newEngine env),
                               loadingStatus := status10\<rparr>"
  define ev2 where "ev2 = (ev0 @ [OnProgress 5 status5]) @
      [EngineCreate (newEngine env), OnProgress 10 status10,
       EngineReload (newEngine env) (model_id m)]"
  have c: "create_engine env m ev0 svc = (AwaitReload, ev2, svc2)"
    using None by (simp add: create_engine_def Let_def status5_def status10_def svc2_def ev2_def)
  obtain r ev svc' where fin: "run_from env m (finish_reload env m svc2) = (r, ev, svc')"
    and p: "engine_calls ev = []" "engine svc' = engine svc2" "\<not> isLoading svc'"
      "r = None \<longrightarrow> currentModel svc' = Some (model_id m)"
    using run_from_finish_reload [of env m svc2] by blast
  have "run_from env m (create_engine env m ev0 svc) = (r, ev2 @ ev, svc')"
    using fin by (simp add: c run_from_def init_run_unfold)
  then show ?thesis
    using None assms p by (simp add: loads_def ev2_def svc2_def)
qed

lemma run_from_begin_load:
  assumes "engine svc = None"
  shows "loads env m svc (run_from env m (begin_load env m svc))"
proof (cases "\<not> isIOS env \<and> gpuInNavigator env")
  case False
  then show ?thesis
    using assms run_from_create_engine [of "[OnProgress 0 (js ''Initializing model...'')]" env m
        "svc\<lparr>isLoading := True, loadingProgress := 0, loadingStatus := js ''Initializing model...''\<rparr>"]
    by (auto simp: begin_load_def Let_def loads_def)
next
  case True
  define svc2 where "svc2 = svc\<lparr>isLoading := True, loadingProgress := 0,
                        loadingStatus := js ''Initializing model...''\<rparr>"
  have b: "begin_load env m svc = (AwaitAdapter, [OnProgress 0 (js ''Initializing model...'')], svc2)"
    using True assms by (simp add: begin_load_def Let_def svc2_def)
  obtain r ev svc' where c: "run_from env m (create_engine env m [] svc2) = (r, ev, svc')"
    by (cases "run_from env m (create_engine env m [] svc2)") auto
  have l: "loads env m svc2 (r, ev, svc')"
    using run_from_create_engine [of "[]" env m svc2] by (simp add: c)
  have "run_from env m (begin_load env m svc) =
          (r, [OnProgress 0 (js ''Initializing model...'')] @ ev, svc')"
    using c by (simp add: b run_from_def init_run_unfold)
  then show ?thesis
    using l by (simp add: loads_def svc2_def)
qed

lemma uninterrupted_switch_unloads_first:
  assumes "\<not> isLoading svc" and "engine svc = Some a"
    and "currentModel svc \<noteq> Some (model_id B)"
  shows "\<exists>err rest svc'.
           initializeModel env B svc = (err, EngineUnload a # rest, svc')
           \<and> engine_calls rest =
               (if constructorThrows env = None
                then [EngineCreate (newEngine env), EngineReload (newEngine env) (model_id B)]
                else [])
           \<and> (engine svc' = None \<or> engine svc' = Some (newEngine env))
           \<and> (err = None \<longrightarrow>
                engine svc' = Some (newEngine env) \<and> currentModel svc' = Some (model_id B))
           \<and> \<not> isLoading svc'"
proof -
  obtain r ev svc' where b: "run_from env B (begin_load env B (cleanup_end svc)) = (r, ev, svc')"
    by (cases "run_from env B (begin_load env B (cleanup_end svc))") auto
  have e: "engine (cleanup_end svc) = None"
    by (simp add: cleanup_end_def)
  have l: "loads env B (cleanup_end svc) (r, ev, svc')"
    using run_from_begin_load [OF e, of env B] by (simp add: b)
  have "initializeModel env B svc = (r, EngineUnload a # ev, svc')"
    using assms b
    by (simp add: initializeModel_def init_run_unfold run_from_def cleanup_begin_def)
  then show ?thesis
    using l e by (simp add: loads_def)
qed

text \<open>
  C5. Loading model \<open>B\<close> while model \<open>A\<close> is loaded unloads \<open>A\<close> first, so that at most
  one model is loaded at any time. A call that runs alone does so
  (\<open>uninterrupted_switch_unloads_first\<close>). But the guard on \<open>isLoading\<close> is read before
  \<open>await this.cleanup()\<close> and the flag is set only behind it: a second call made while
  the first waits for \<open>unload\<close> passes the guard as well. For \<open>llama\<close> loaded as engine 0
  and two such calls, for \<open>qwen\<close> and for \<open>smollm\<close>, both calls return normally, engine 0
  is unloaded twice, the engines 1 and 2 are both constructed and loaded, neither is
  ever unloaded, and the service is left holding engine 2 only.
\<close>

theorem overlapping_calls_load_two_engines:
  "(case interleave [0, 1, 0, 1, 0, 1, 0, 1] two_calls ready_service of
      (effs, calls, svc) \<Rightarrow>
        engine_calls effs =
          [EngineUnload 0, EngineUnload 0,
           EngineCreate 1, EngineReload 1 (model_id qwen),
           EngineCreate 2, EngineReload 2 (model_id smollm)]
        \<and> map call_pc calls = [Finished None, Finished None]
        \<and> engine svc = Some 2 \<and> currentModel svc = Some (model_id smollm)
        \<and> live_engines [0] effs = [1, 2])"
  using model_ids_differ
  by (simp add: two_calls_def advance_def desktop_fields ready_fields cleanup_begin_def
        cleanup_end_def begin_load_def create_engine_def finish_reload_def Let_def
        live_engines_def hasWebGPU_def)


section \<open>Properties of the chat view\<close>

text \<open>
  C8. Sending any input while no model is selected or no model is loaded changes
  neither the store nor the service, makes no call to the engine and does not throw.
\<close>

theorem send_without_model_is_noop:
  "selectedModel st = None \<or> engine svc = None \<Longrightarrow>
   handleSendMessage env now input st svc = (None, st, svc, [])"
  by (auto simp: handleSendMessage_def isModelLoaded_def)

theorem send_without_model_is_noop_witness:
  "selectedModel (initial_state True) = None
   \<and> handleSendMessage stopped_generation 0 (js ''hello'') (initial_state True) ready_service
       = (None, initial_state True, ready_service, [])"
  using send_without_model_is_noop
    [of "initial_state True" ready_service stopped_generation 0 "js ''hello''"]
  by (simp add: initial_state_def)

lemma cancel_controller_None [simp]: "cancel_controller ac = None"
  by (cases ac) (simp_all add: cancel_controller_def)

lemma no_token_once_stopped:
  "Token t \<notin> set (snd (snd (snd (stream_loop nullmsg None full items))))"
proof (induction items arbitrary: full)
  case Nil
  show ?case by simp
next
  case (Cons a items)
  then show ?case by (cases a) (simp_all add: case_prod_beta)
qed

lemma stopped_loop:
  "stream_loop nullmsg (Some False) [] [Chunk (Some (js ''Hel'')), Stop, Chunk (Some (js ''lo''))]
     = (Some (TypeError nullmsg), None, js ''Hel'', [Token (js ''Hel''), Stopped])"
  by (simp add: js_def)

lemma stopped_generation_fields:
  "purify stopped_generation = (\<lambda>s. s)"
  "createThrows stopped_generation = None"
  "stream stopped_generation = [Chunk (Some (js ''Hel'')), Stop, Chunk (Some (js ''lo''))]"
  by (simp_all add: stopped_generation_def)

lemma null_signal: "nullSignalMessage stopped_generation = null_signal"
  by (simp add: stopped_generation_def)

lemma ready_service_fields:
  "engine ready_service = Some 0" "abortController ready_service = None"
  "ready_service\<lparr>abortController := None\<rparr> = ready_service"
  by (simp_all add: ready_service_def new_service_def)

lemma null_signal_not_gpu:
  "\<not> includes_str null_signal (js ''Instance reference no longer exists'')"
  "\<not> includes_str null_signal (js ''Device was lost'')"
  "\<not> includes_str null_signal (js ''GPUDeviceLostInfo'')"
  "\<not> includes_str null_signal (js ''OperationError'')"
  by (simp_all add: null_signal_def js_def)

lemma stopped_error:
  "generation_error (TypeError null_signal) svc
     = (Error (js ''Failed to generate response: '' @ null_signal), svc)"
proof -
  have "js ''TypeError'' \<noteq> js ''AbortError''" by (simp add: js_def)
  then show ?thesis
    by (simp add: generation_error_def TypeError_def message_or_string_def null_signal_not_gpu)
qed

lemma stopped_generate:
  "generateResponse stopped_generation
       [\<lparr>role = User, content = js ''hello'', msg_timestamp = now\<rparr>] None (Some []) ready_service
     = (Inl (Error (js ''Failed to generate response: '' @ null_signal)),
        [Token (js ''Hel''), Stopped],
        [ChatCreate 0 [(User, js ''hello'')] 1024],
        ready_service)"
proof -
  have hel: "js ''Hel'' \<noteq> []"
    by (simp add: js_def)
  have b: "generate_body stopped_generation 0
             [\<lparr>role = User, content = js ''hello'', msg_timestamp = now\<rparr>] None (Some [])
             ready_service
     = (Inl (TypeError null_signal), [Token (js ''Hel''), Stopped],
        [ChatCreate 0 [(User, js ''hello'')] 1024], ready_service)"
    using hel
    by (simp add: generate_body_def stopped_generation_fields null_signal sanitize_hello
          ready_service_fields)
  show ?thesis
    by (simp add: generateResponse_def ready_service_fields b stopped_error)
qed

lemma error_not_gpu_lost:
  "\<not> includes_str (js ''Failed to generate response: '' @ null_signal) (js ''GPU_DEVICE_LOST'')"
  by (simp add: null_signal_def js_def)

text \<open>
  C6. After the stop button has cancelled a running generation no further \<open>onToken\<close>
  call is made (\<open>no_token_once_stopped\<close>), and the partial text stays in the last
  assistant message. On the code, \<open>cancelGeneration\<close> sets \<open>this.abortController\<close> to
  \<open>null\<close> and the loop reads \<open>this.abortController.signal\<close> for the next chunk: that
  read throws a \<open>TypeError\<close>, \<open>generateResponse\<close> rethrows it as a generation failure,
  and \<open>handleSendMessage\<close> appends an error message behind the partial answer. For
  the chunks \<open>Hel\<close>, stop, \<open>lo\<close> the store ends with three messages.
\<close>

theorem stop_then_chunk_appends_error_message:
  "map (\<lambda>m. (role m, content m))
     (messages (fst (snd (handleSendMessage stopped_generation now (js ''hello'')
                            ready_store ready_service))))
     = [(User, js ''hello''), (Assistant, js ''Hel''),
        (Assistant, js ''Error: Failed to generate response: '' @ null_signal)]"
proof -
  have s: "selectedModel ready_store \<noteq> None" "messages ready_store = []"
    "systemInstruction ready_store = []"
    by (simp_all add: ready_store_def setSelectedModel_def initial_state_def)
  have l: "isModelLoaded ready_service"
    by (simp add: isModelLoaded_def ready_service_fields)
  have t: "take 4000 (js ''hello'') = js ''hello''"
    by (simp add: js_def)
  have m: "message_or d (Error x) = x" for d x
    by (simp add: message_or_def Error_def)
  show ?thesis
    by (simp add: handleSendMessage_def s l stopped_generation_fields sanitize_hello t
          slice_last_def Let_def stopped_generate m error_not_gpu_lost null_signal
          addMessage_def setGenerating_def)
       (simp add: js_def)
qed

end
